theory Spec2Isabelle
  imports Main
begin

section \<open>The plist module of simian (src/simian/mac/munki/plist.py)\<close>

text \<open>
  A shallow embedding of the class \<open>ApplePlist\<close> and of the module-level XML encoder.
  Conventions:
  \<^item> a Python 2 string (\<open>str\<close> or \<open>unicode\<close>) is a \<open>string\<close>, a list of 8-bit characters;
    \<open>ord\<close> is \<open>of_char\<close>. Code points above 255 have no representation: the one place
    that can produce them (the UTF-16 loader) reports the model-only outcome \<open>NotModelled\<close>;
  \<^item> a Python slice \<open>s[i:j]\<close> with \<open>0 \<le> i\<close> is \<open>slice i j s\<close>: it clamps at the end of \<open>s\<close>
    and never raises;
  \<^item> every exception is a value of \<open>error\<close>, and a method that changes the instance
    returns the new instance. A method that raises only before it has changed anything
    returns \<open>error + result\<close>: the instance is then as it was. A method that can raise
    after a change returns a \<open>res\<close>: the exception comes with the instance as the
    method leaves it;
  \<^item> \<open>sys.maxint\<close> is \<open>2^63 - 1\<close> (a 64-bit CPython 2).
\<close>

subsection \<open>Exceptions\<close>

text \<open>The argument of \<open>MalformedPlistError\<close> says where it was raised (its message).\<close>

datatype malformed =
    HeaderMsg                 \<comment> \<open>'Header: ...'\<close>
  | FooterMsg                 \<comment> \<open>'Footer: ...'\<close>
  | OffsetTableMsg            \<comment> \<open>'Offset table: ...'\<close>
  | UnknownSimple nat         \<comment> \<open>'Unknown simple %d' % objarg\<close>
  | UnknownObjtype nat        \<comment> \<open>'Unknown binary objtype %d' % objtype\<close>
  | StructProblem nat         \<comment> \<open>'Binary struct problem offset %d: ...' % pos\<close>
  | ElementMsg string         \<comment> \<open>'Element %s' % name\<close>
  | NoMsg                     \<comment> \<open>raised with no argument\<close>
  | ExpatMsg                  \<comment> \<open>the document and the expat message\<close>

datatype error =
    PlistError
  | PlistNotParsedError
  | MalformedPlistError malformed
  | InvalidPlistError
  | BinaryPlistHeaderError
  | BinaryPlistVersionError
  | StructError               \<comment> \<open>struct.error, a direct subclass of Exception\<close>
  | IndexError
  | KeyError
  | TypeError
  | ValueError
  | AttributeError
  | LookupError
  | OverflowError
  | UnboundLocalError
  | NotImplementedError
  | RuntimeError              \<comment> \<open>maximum recursion depth exceeded\<close>
  | ExpatError                \<comment> \<open>xml.parsers.expat.ExpatError\<close>
  | NotModelled               \<comment> \<open>not a Python exception: the input is outside this model\<close>

subsection \<open>Values\<close>

text \<open>
  \<open>Float32 b\<close> and \<open>Float64 b\<close> are the Python floats that \<open>struct.unpack\<close> reads from
  the IEEE-754 bit pattern \<open>b\<close> of 4 and of 8 bytes. \<open>Datetime\<close> is a naive
  \<open>datetime.datetime\<close>; \<open>EpochOffset b\<close> is the timezone-aware
  \<open>EPOCH + timedelta(seconds = f)\<close> for the double \<open>f\<close> with bit pattern \<open>b\<close>.
\<close>

datatype pyfloat = Float32 nat | Float64 nat

datatype pydatetime =
    Datetime (dt_year: nat) (dt_month: nat) (dt_day: nat)
             (dt_hour: nat) (dt_minute: nat) (dt_second: nat) (dt_microsecond: nat)
  | EpochOffset nat

text \<open>
  A \<open>dict\<close> is the list of its items, a \<open>set\<close> the list of its members, both without
  repetition and in the order of insertion; keys and members are compared structurally
  (Python's \<open>1 == True == 1.0\<close> across types is not modelled).
\<close>

datatype pyval =
    PNone
  | PBool bool
  | PInt int
  | PFloat pyfloat
  | PStr string
  | PDate pydatetime
  | PData string              \<comment> \<open>AppleData\<close>
  | PUid int                  \<comment> \<open>AppleUid\<close>
  | PList "pyval list"
  | PDict "(pyval \<times> pyval) list"
  | PSet "pyval list"

definition maxint :: int where
  "maxint = 2 ^ 63 - 1"

definition slice :: "nat \<Rightarrow> nat \<Rightarrow> 'a list \<Rightarrow> 'a list" where
  "slice i j xs = take (j - i) (drop i xs)"

fun hashable :: "pyval \<Rightarrow> bool" where
  "hashable (PList _) = False"
| "hashable (PDict _) = False"
| "hashable (PSet _) = False"
| "hashable _ = True"

text \<open>\<open>d[k] = v\<close> on a dict: replaces the value of an existing key, appends a new one.\<close>

fun dict_set :: "(pyval \<times> pyval) list \<Rightarrow> pyval \<Rightarrow> pyval \<Rightarrow> (pyval \<times> pyval) list" where
  "dict_set [] k v = [(k, v)]"
| "dict_set ((k', v') # d) k v = (if k' = k then (k', v) # d else (k', v') # dict_set d k v)"

definition set_add :: "pyval list \<Rightarrow> pyval \<Rightarrow> pyval list" where
  "set_add a x = (if x \<in> set a then a else a @ [x])"

text \<open>Truth value of a Python object, as \<open>if not x\<close> tests it.\<close>

fun truthy :: "pyval \<Rightarrow> bool" where
  "truthy PNone = False"
| "truthy (PBool b) = b"
| "truthy (PInt i) = (i \<noteq> 0)"
| "truthy (PUid i) = (i \<noteq> 0)"
| "truthy (PFloat (Float32 b)) = (b mod 2 ^ 31 \<noteq> 0)"
| "truthy (PFloat (Float64 b)) = (b mod 2 ^ 63 \<noteq> 0)"
| "truthy (PStr s) = (s \<noteq> [])"
| "truthy (PData s) = (s \<noteq> [])"
| "truthy (PDate _) = True"
| "truthy (PList xs) = (xs \<noteq> [])"
| "truthy (PDict d) = (d \<noteq> [])"
| "truthy (PSet xs) = (xs \<noteq> [])"

subsection \<open>The instance\<close>

text \<open>
  The attributes of an \<open>ApplePlist\<close>. \<open>_plist_xml\<close> is a \<open>str\<close> or, once \<open>EncodeXML\<close> has
  converted it, a \<open>unicode\<close>: \<open>xml_is_unicode\<close> records which. The dict \<open>__bin\<close> holds
  the header and footer fields under string keys and the decoded objects under their
  integer offsets: the fields \<open>bin_...\<close> and the map \<open>bin_objects\<close>. \<open>_object_offset\<close>
  has the keys \<open>0 .. numObjects - 1\<close>, so it is a list; it is \<open>None\<close> before
  \<open>_BinLoadOffsetTable\<close> creates the attribute. A validation hook is a callable that
  may raise; it is modelled as a function of the root value. \<open>validate_basic_config\<close>
  is the class attribute \<open>_VALIDATE_BASIC_CONFIG\<close>: a list of keys with the test
  "the type of the value is the expected one".
\<close>

record plist_state =
  plist_bin :: "string option"
  plist_xml :: "string option"
  xml_is_unicode :: bool
  plist_xml_encoding :: "string option"
  plist :: pyval
  plist_version :: "string option"
  current_mode :: "string list"
  current_value :: "pyval list"
  current_key :: "string list"
  validation_hooks :: "(pyval \<Rightarrow> error option) list"
  validate_basic_config :: "(string \<times> (pyval \<Rightarrow> bool)) list"
  bin_magic :: "string option"
  bin_v :: "string option"
  bin_sortVersion :: "nat option"
  bin_offsetIntSize :: "nat option"
  bin_objectRefSize :: "nat option"
  bin_numObjects :: "nat option"
  bin_topObject :: "nat option"
  bin_offsetTableOffset :: "nat option"
  bin_objects :: "nat \<rightharpoonup> pyval"
  object_offset :: "nat list option"

text \<open>
  The outcome of a method that can raise after it has changed the instance, and the
  outcome of a call that raised without a change.
\<close>

type_synonym 'a res = "(error \<times> plist_state) + 'a"

definition raising :: "plist_state \<Rightarrow> error + 'a \<Rightarrow> 'a res" where
  "raising st r = (case r of Inl e \<Rightarrow> Inl (e, st) | Inr x \<Rightarrow> Inr x)"

definition COUNT_INT_FOLLOWS :: nat where
  "COUNT_INT_FOLLOWS = 15"

definition BPLIST_MAGIC :: string where
  "BPLIST_MAGIC = ''bplist''"

definition BPLIST_VERSIONS :: "string list" where
  "BPLIST_VERSIONS = [''00'']"

definition INT_SIZE_FORMAT :: "nat \<Rightarrow> bool" where
  "INT_SIZE_FORMAT siz \<longleftrightarrow> siz \<in> {1, 2, 4, 8}"

definition FLOAT_SIZE_FORMAT :: "nat \<Rightarrow> bool" where
  "FLOAT_SIZE_FORMAT siz \<longleftrightarrow> siz \<in> {4, 8}"

text \<open>The instance that \<open>Reset\<close> leaves, for a class with the attribute \<open>cfg\<close>.\<close>

definition empty_state :: "(string \<times> (pyval \<Rightarrow> bool)) list \<Rightarrow> plist_state" where
  "empty_state cfg = \<lparr> plist_bin = None, plist_xml = None, xml_is_unicode = False,
     plist_xml_encoding = None, plist = PNone, plist_version = None,
     current_mode = [], current_value = [], current_key = [],
     validation_hooks = [], validate_basic_config = cfg,
     bin_magic = None, bin_v = None, bin_sortVersion = None, bin_offsetIntSize = None,
     bin_objectRefSize = None, bin_numObjects = None, bin_topObject = None,
     bin_offsetTableOffset = None, bin_objects = Map.empty, object_offset = None \<rparr>"

definition Reset :: "plist_state \<Rightarrow> plist_state" where
  "Reset st = empty_state (validate_basic_config st)"

definition LoadDocument' :: "string \<Rightarrow> plist_state \<Rightarrow> plist_state" where
  \<comment> \<open>\<open>_LoadDocument\<close>\<close>
  "LoadDocument' plist_xml_arg st =
     (Reset st)\<lparr> plist_xml := Some plist_xml_arg, xml_is_unicode := False, plist_bin := None \<rparr>"

definition LoadBinary' :: "string \<Rightarrow> plist_state \<Rightarrow> plist_state" where
  \<comment> \<open>\<open>_LoadBinary\<close>\<close>
  "LoadBinary' plist_bin_arg st =
     (Reset st)\<lparr> plist_bin := Some plist_bin_arg, plist_xml := None \<rparr>"

subsection \<open>The binary decoder\<close>

text \<open>Big-endian unsigned integers, as \<open>struct.unpack\<close> with \<open>>\<close> reads them.\<close>

definition be_nat :: "string \<Rightarrow> nat" where
  "be_nat s = foldl (\<lambda>c b. c * 256 + of_char b) 0 s"

fun unpack_list :: "nat \<Rightarrow> nat \<Rightarrow> string \<Rightarrow> nat list" where
  "unpack_list siz 0 s = []"
| "unpack_list siz (Suc k) s = be_nat (take siz s) # unpack_list siz k (drop siz s)"

text \<open>
  \<open>struct.unpack('>%d%s' % (n, fmt), s)\<close> for an unsigned format of \<open>siz\<close> bytes:
  \<open>struct.error\<close> unless \<open>s\<close> has exactly \<open>n * siz\<close> bytes.
\<close>

definition unpack_uints :: "nat \<Rightarrow> nat \<Rightarrow> string \<Rightarrow> error + nat list" where
  "unpack_uints siz n s =
     (if length s = n * siz then Inr (unpack_list siz n s) else Inl StructError)"

definition BinLoadHeader :: "string option \<Rightarrow> plist_state \<Rightarrow> error + plist_state" where
  "BinLoadHeader header_arg st =
     (case (case header_arg of None \<Rightarrow> plist_bin st | Some h \<Rightarrow> Some h) of
        None \<Rightarrow> Inl TypeError
      | Some h \<Rightarrow>
          let header = slice 0 8 h in
          if length header \<noteq> 8 then Inl (MalformedPlistError HeaderMsg)
          else let magic = take 6 header; v = drop 6 header in
            if magic \<noteq> BPLIST_MAGIC then Inl BinaryPlistHeaderError
            else if v \<notin> set BPLIST_VERSIONS then Inl BinaryPlistVersionError
            else Inr (st\<lparr> bin_magic := Some magic, bin_v := Some v \<rparr>))"

definition LoadPlist :: "string \<Rightarrow> plist_state \<Rightarrow> error + plist_state" where
  "LoadPlist plist_arg st =
     (case BinLoadHeader (Some plist_arg) st of
        Inr st' \<Rightarrow> Inr (LoadBinary' plist_arg st')
      | Inl BinaryPlistHeaderError \<Rightarrow> Inr (LoadDocument' plist_arg st)
      | Inl BinaryPlistVersionError \<Rightarrow> Inr (LoadBinary' plist_arg st)
      | Inl e \<Rightarrow> Inl e)"

text \<open>\<open>__init__\<close>; \<open>cfg\<close> is the class attribute of the class that is instantiated.\<close>

definition init :: "(string \<times> (pyval \<Rightarrow> bool)) list \<Rightarrow> string option \<Rightarrow> error + plist_state" where
  "init cfg plist_arg =
     (let st = empty_state cfg in
      case plist_arg of None \<Rightarrow> Inr st | Some p \<Rightarrow> LoadPlist p st)"

definition BinLoadFooter :: "plist_state \<Rightarrow> error + plist_state" where
  "BinLoadFooter st =
     (case plist_bin st of
        None \<Rightarrow> Inl TypeError
      | Some b \<Rightarrow>
          let a = drop (length b - 32) b in
          if length a \<noteq> 32 then Inl (MalformedPlistError FooterMsg)
          else Inr (st\<lparr> bin_sortVersion := Some (of_char (a ! 5)),
                        bin_offsetIntSize := Some (of_char (a ! 6)),
                        bin_objectRefSize := Some (of_char (a ! 7)),
                        bin_numObjects := Some (be_nat (slice 8 16 a)),
                        bin_topObject := Some (be_nat (slice 16 24 a)),
                        bin_offsetTableOffset := Some (be_nat (slice 24 32 a)) \<rparr>))"

text \<open>
  The loop of \<open>_BinLoadOffsetTable\<close>: \<open>k\<close> entries are still to be read, the next one
  at \<open>ofs\<close>. It gives the entries that were read and the exception that ended it, if
  one did.
\<close>

fun offset_loop :: "string \<Rightarrow> nat \<Rightarrow> nat \<Rightarrow> nat \<Rightarrow> nat list \<times> error option" where
  "offset_loop b int_size 0 ofs = ([], None)"
| "offset_loop b int_size (Suc k) ofs =
     (let s = slice ofs (ofs + int_size) b in
      if length s \<noteq> int_size then ([], Some (MalformedPlistError OffsetTableMsg))
      else case offset_loop b int_size k (ofs + int_size) of
             (rest, r) \<Rightarrow> (be_nat s # rest, r))"

text \<open>
  \<open>_BinLoadOffsetTable\<close> empties \<open>_object_offset\<close> after it has read the offset and the
  size of the table, and fills it entry by entry.
\<close>

definition BinLoadOffsetTable :: "plist_state \<Rightarrow> plist_state res" where
  "BinLoadOffsetTable st =
     (case bin_offsetTableOffset st of
        None \<Rightarrow> Inl (KeyError, st)
      | Some ofs \<Rightarrow>
          (case bin_offsetIntSize st of
             None \<Rightarrow> Inl (KeyError, st)
           | Some int_size \<Rightarrow>
               (let st0 = st\<lparr> object_offset := Some [] \<rparr> in
                if \<not> INT_SIZE_FORMAT int_size then Inl (KeyError, st0)
                else
                  (case bin_numObjects st of
                     None \<Rightarrow> Inl (KeyError, st0)
                   | Some n \<Rightarrow>
                       if int n > maxint then Inl (OverflowError, st0)
                       else
                         (case plist_bin st of
                            None \<Rightarrow> (if n = 0 then Inr st0 else Inl (TypeError, st0))
                          | Some b \<Rightarrow>
                              (case offset_loop b int_size n ofs of
                                 (tab, None) \<Rightarrow> Inr (st\<lparr> object_offset := Some tab \<rparr>)
                               | (tab, Some e) \<Rightarrow>
                                   Inl (e, st\<lparr> object_offset := Some tab \<rparr>)))))))"

text \<open>
  The loop of \<open>_BinGetCount\<close>: \<open>k\<close> bytes are still to be read, the next one at \<open>pos\<close>;
  \<open>ord\<close> of the empty slice is a \<open>TypeError\<close>.
\<close>

fun count_loop :: "string \<Rightarrow> nat \<Rightarrow> nat \<Rightarrow> nat \<Rightarrow> error + nat \<times> nat" where
  "count_loop b 0 pos c = Inr (pos, c)"
| "count_loop b (Suc k) pos c =
     (if pos < length b then count_loop b k (pos + 1) (c * 256 + of_char (b ! pos))
      else Inl TypeError)"

definition BinGetCount :: "string \<Rightarrow> nat \<Rightarrow> error + nat \<times> nat" where
  "BinGetCount b ofs =
     (if \<not> ofs < length b then Inl StructError
      else let l = 2 ^ (of_char (b ! ofs) mod 16) in
        case count_loop b l (ofs + 1) 0 of
          Inl e \<Rightarrow> Inl e
        | Inr (pos, c) \<Rightarrow> Inr (pos - ofs, c))"

text \<open>
  The first lines of every loader of a counted payload: the position of the payload
  and its count.
  \<^verbatim>\<open>
    pos = ofs + 1
    if objarg == self.COUNT_INT_FOLLOWS:
      (l, c) = self._BinGetCount(pos)
      pos += l
    else:
      c = objarg
  \<close>
\<close>

definition payload_count :: "string \<Rightarrow> nat \<Rightarrow> nat \<Rightarrow> error + nat \<times> nat" where
  "payload_count b ofs objarg =
     (let pos = ofs + 1 in
      if objarg = COUNT_INT_FOLLOWS then
        (case BinGetCount b pos of
           Inl e \<Rightarrow> Inl e
         | Inr (l, c) \<Rightarrow> Inr (pos + l, c))
      else Inr (pos, objarg))"

definition BinLoadSimple :: "nat \<Rightarrow> nat \<Rightarrow> nat \<Rightarrow> error + pyval" where
  "BinLoadSimple ofs objtype objarg =
     (if objarg = 0 then Inr PNone
      else if objarg = 8 then Inr (PBool False)
      else if objarg = 9 then Inr (PBool True)
      else if objarg = 15 then Inl UnboundLocalError
      else Inl (MalformedPlistError (UnknownSimple objarg)))"

definition BinLoadUnused :: "nat \<Rightarrow> nat \<Rightarrow> nat \<Rightarrow> error + pyval" where
  "BinLoadUnused ofs objtype objarg = Inr PNone"

definition BinLoadInt :: "string \<Rightarrow> nat \<Rightarrow> nat \<Rightarrow> nat \<Rightarrow> error + pyval" where
  "BinLoadInt b ofs objtype objarg =
     (case BinGetCount b ofs of
        Inl e \<Rightarrow> Inl e
      | Inr (unused_l, c) \<Rightarrow> Inr (PInt (int c)))"

definition BinLoadUid :: "string \<Rightarrow> nat \<Rightarrow> nat \<Rightarrow> nat \<Rightarrow> error + pyval" where
  "BinLoadUid b ofs objtype objarg =
     (case BinLoadInt b ofs objtype objarg of
        Inr (PInt c) \<Rightarrow> (if c > maxint then Inl OverflowError else Inr (PUid c))
      | Inr _ \<Rightarrow> Inl TypeError
      | Inl e \<Rightarrow> Inl e)"

definition BinLoadFloat :: "string \<Rightarrow> nat \<Rightarrow> nat \<Rightarrow> nat \<Rightarrow> error + pyval" where
  "BinLoadFloat b ofs objtype objarg =
     (let pos = ofs + 1; c = 2 ^ objarg in
      if \<not> FLOAT_SIZE_FORMAT c then Inl KeyError
      else let s = slice pos (pos + c) b in
        if length s \<noteq> c then Inl StructError
        else Inr (PFloat (if c = 4 then Float32 (be_nat s) else Float64 (be_nat s))))"

text \<open>
  \<open>EPOCH + timedelta(seconds = f)\<close>: a NaN is a \<open>ValueError\<close>; an \<open>OverflowError\<close> when
  the sum leaves the years 1 to 9999, that is unless
  \<open>-63113904000 \<le> f < 252423993600\<close>. The double is \<open>(-1)^s * m * 2^e\<close> with
  \<open>double_parts\<close>.
\<close>

definition double_parts :: "nat \<Rightarrow> bool \<times> nat \<times> int" where
  "double_parts w =
     (let s = (w div 2 ^ 63) mod 2 = 1; e = (w div 2 ^ 52) mod 2048; m = w mod 2 ^ 52 in
      if e = 0 then (s, m, - 1074) else (s, 2 ^ 52 + m, int e - 1075))"

definition double_is_nan :: "nat \<Rightarrow> bool" where
  "double_is_nan w \<longleftrightarrow> (w div 2 ^ 52) mod 2048 = 2047 \<and> w mod 2 ^ 52 \<noteq> 0"

definition double_is_inf :: "nat \<Rightarrow> bool" where
  "double_is_inf w \<longleftrightarrow> (w div 2 ^ 52) mod 2048 = 2047 \<and> w mod 2 ^ 52 = 0"

text \<open>\<open>m * 2^e < bound\<close> for a natural bound.\<close>

definition dyadic_less :: "nat \<Rightarrow> int \<Rightarrow> nat \<Rightarrow> bool" where
  "dyadic_less m e bound =
     (if e \<ge> 0 then m * 2 ^ nat e < bound else m < bound * 2 ^ nat (- e))"

definition dyadic_le :: "nat \<Rightarrow> int \<Rightarrow> nat \<Rightarrow> bool" where
  "dyadic_le m e bound =
     (if e \<ge> 0 then m * 2 ^ nat e \<le> bound else m \<le> bound * 2 ^ nat (- e))"

definition BinLoadDate :: "string \<Rightarrow> nat \<Rightarrow> nat \<Rightarrow> nat \<Rightarrow> error + pyval" where
  "BinLoadDate b ofs objtype objarg =
     (let pos = ofs + 1; s = slice pos (pos + 8) b in
      if length s \<noteq> 8 then Inl StructError
      else let w = be_nat s in
        if double_is_nan w then Inl ValueError
        else if double_is_inf w then Inl OverflowError
        else (case double_parts w of (neg, m, e) \<Rightarrow>
          if (if neg then dyadic_le m e 63113904000 else dyadic_less m e 252423993600)
          then Inr (PDate (EpochOffset w))
          else Inl OverflowError))"

text \<open>
  \<open>unicode(s, 'utf-16be')\<close>: a \<open>UnicodeDecodeError\<close> (a \<open>ValueError\<close>) for an odd number of
  bytes or an unpaired surrogate.
\<close>

fun utf16be :: "string \<Rightarrow> error + string" where
  "utf16be [] = Inr []"
| "utf16be [x] = Inl ValueError"
| "utf16be (hi # lo # s) =
     (if (of_char hi :: nat) div 8 = 27 then
        (if (of_char hi :: nat) div 4 = 54 \<and> length s \<ge> 2 \<and> (of_char (hd s) :: nat) div 4 = 55
         then Inl NotModelled else Inl ValueError)
      else if (of_char hi :: nat) \<noteq> 0 then Inl NotModelled
      else case utf16be s of Inl e \<Rightarrow> Inl e | Inr t \<Rightarrow> Inr (lo # t))"

definition BinLoadUnicode :: "string \<Rightarrow> nat \<Rightarrow> nat \<Rightarrow> nat \<Rightarrow> error + pyval" where
  "BinLoadUnicode b ofs objtype objarg =
     (case payload_count b ofs objarg of
        Inl e \<Rightarrow> Inl e
      | Inr (pos, c0) \<Rightarrow>
          (let c = c0 * 2 in
           (case utf16be (slice pos (pos + c) b) of
              Inl e \<Rightarrow> Inl e
            | Inr s \<Rightarrow> Inr (PStr s))))"

definition BinLoadAsciiStr :: "string \<Rightarrow> nat \<Rightarrow> nat \<Rightarrow> nat \<Rightarrow> error + pyval" where
  "BinLoadAsciiStr b ofs objtype objarg =
     (case payload_count b ofs objarg of
        Inl e \<Rightarrow> Inl e
      | Inr (pos, c) \<Rightarrow> Inr (PStr (slice pos (pos + c) b)))"

definition BinLoadData :: "string \<Rightarrow> nat \<Rightarrow> nat \<Rightarrow> nat \<Rightarrow> error + pyval" where
  "BinLoadData b ofs objtype objarg =
     (case payload_count b ofs objarg of
        Inl e \<Rightarrow> Inl e
      | Inr (pos, c) \<Rightarrow> Inr (PData (slice pos (pos + c) b)))"

text \<open>\<open>self._object_offset[r]\<close>.\<close>

definition offset_of :: "plist_state \<Rightarrow> nat \<Rightarrow> error + nat" where
  "offset_of st r =
     (case object_offset st of
        None \<Rightarrow> Inl AttributeError
      | Some tab \<Rightarrow> if r < length tab then Inr (tab ! r) else Inl KeyError)"

text \<open>The width of an object reference: \<open>2\<close> if \<open>self.__bin['numObjects'] > 255\<close>, else \<open>1\<close>.\<close>

definition ref_size :: "plist_state \<Rightarrow> error + nat" where
  "ref_size st =
     (case bin_numObjects st of
        None \<Rightarrow> Inl KeyError
      | Some n \<Rightarrow> Inr (if n > 255 then 2 else 1))"

text \<open>
  The object references of an array or a set, up to the loop that resolves them
  (\<open>_BinLoadArray\<close> and \<open>_BinLoadSet\<close> have the same text there). The count that is
  given to \<open>struct.unpack\<close> is \<open>c/siz\<close>, the slice has \<open>siz*c\<close> bytes.
\<close>

definition array_refs :: "string \<Rightarrow> nat \<Rightarrow> nat \<Rightarrow> plist_state \<Rightarrow> error + nat list" where
  "array_refs b ofs objarg st =
     (case payload_count b ofs objarg of
        Inl e \<Rightarrow> Inl e
      | Inr (pos, c) \<Rightarrow>
          (case ref_size st of
             Inl e \<Rightarrow> Inl e
           | Inr siz \<Rightarrow> unpack_uints siz (c div siz) (slice pos (pos + siz * c) b)))"

text \<open>The key references and the value references of a dict: the count is \<open>c\<close>.\<close>

definition dict_refs :: "string \<Rightarrow> nat \<Rightarrow> nat \<Rightarrow> plist_state \<Rightarrow> error + nat list \<times> nat list" where
  "dict_refs b ofs objarg st =
     (case payload_count b ofs objarg of
        Inl e \<Rightarrow> Inl e
      | Inr (pos, c) \<Rightarrow>
          (case ref_size st of
             Inl e \<Rightarrow> Inl e
           | Inr siz \<Rightarrow>
               (case unpack_uints siz c (slice pos (pos + siz * c) b) of
                  Inl e \<Rightarrow> Inl e
                | Inr keyref \<Rightarrow>
                    (case unpack_uints siz c
                            (slice (pos + siz * c) (pos + siz * c + siz * c) b) of
                       Inl e \<Rightarrow> Inl e
                     | Inr objref \<Rightarrow> Inr (keyref, objref)))))"

text \<open>
  The \<open>try\<close> of \<open>_BinLoadObject\<close>: a \<open>KeyError\<close>, \<open>ValueError\<close> or \<open>TypeError\<close> of the
  loader becomes a \<open>MalformedPlistError\<close>; every other exception passes.
\<close>

fun convert_error :: "nat \<Rightarrow> nat \<Rightarrow> error \<Rightarrow> error" where
  "convert_error pos objtype KeyError = MalformedPlistError (UnknownObjtype objtype)"
| "convert_error pos objtype ValueError = MalformedPlistError (StructProblem pos)"
| "convert_error pos objtype TypeError = MalformedPlistError (StructProblem pos)"
| "convert_error pos objtype e = e"

text \<open>A loader that reads the buffer only: the instance is unchanged.\<close>

definition leaf :: "plist_state \<Rightarrow> error + pyval \<Rightarrow> (pyval \<times> plist_state) res" where
  "leaf st r = (case r of Inl e \<Rightarrow> Inl (e, st) | Inr x \<Rightarrow> Inr (x, st))"

text \<open>
  The loops of the three container loaders. \<open>load\<close> is the bound method
  \<open>self._BinLoadObject\<close>, at the recursion depth that is left.
\<close>

type_synonym loader = "nat \<Rightarrow> plist_state \<Rightarrow> (pyval \<times> plist_state) res"

fun array_loop ::
  "loader \<Rightarrow> nat list \<Rightarrow> pyval list \<Rightarrow> plist_state \<Rightarrow> (pyval list \<times> plist_state) res" where
  "array_loop load [] a st = Inr (a, st)"
| "array_loop load (r # rs) a st =
     (case offset_of st r of
        Inl e \<Rightarrow> Inl (e, st)
      | Inr ofs \<Rightarrow>
          (case load ofs st of
             Inl e \<Rightarrow> Inl e
           | Inr (_, st') \<Rightarrow>
               (case bin_objects st' ofs of
                  None \<Rightarrow> Inl (KeyError, st')
                | Some x \<Rightarrow> array_loop load rs (a @ [x]) st')))"

fun set_loop ::
  "loader \<Rightarrow> nat list \<Rightarrow> pyval list \<Rightarrow> plist_state \<Rightarrow> (pyval list \<times> plist_state) res" where
  "set_loop load [] a st = Inr (a, st)"
| "set_loop load (r # rs) a st =
     (case offset_of st r of
        Inl e \<Rightarrow> Inl (e, st)
      | Inr ofs \<Rightarrow>
          (case load ofs st of
             Inl e \<Rightarrow> Inl e
           | Inr (_, st') \<Rightarrow>
               (case bin_objects st' ofs of
                  None \<Rightarrow> Inl (KeyError, st')
                | Some x \<Rightarrow>
                    if hashable x then set_loop load rs (set_add a x) st'
                    else Inl (TypeError, st'))))"

fun dict_loop ::
  "loader \<Rightarrow> nat list \<Rightarrow> nat list \<Rightarrow> (pyval \<times> pyval) list \<Rightarrow> plist_state
     \<Rightarrow> ((pyval \<times> pyval) list \<times> plist_state) res" where
  "dict_loop load [] objref d st = Inr (d, st)"
| "dict_loop load (kr # krs) [] d st = Inl (IndexError, st)"
| "dict_loop load (kr # krs) (vr # vrs) d st =
     (case offset_of st kr of
        Inl e \<Rightarrow> Inl (e, st)
      | Inr kofs \<Rightarrow>
          (case load kofs st of
             Inl e \<Rightarrow> Inl e
           | Inr (_, st1) \<Rightarrow>
               (case offset_of st1 vr of
                  Inl e \<Rightarrow> Inl (e, st1)
                | Inr vofs \<Rightarrow>
                    (case load vofs st1 of
                       Inl e \<Rightarrow> Inl e
                     | Inr (_, st2) \<Rightarrow>
                         (case bin_objects st2 kofs of
                            None \<Rightarrow> Inl (KeyError, st2)
                          | Some k \<Rightarrow>
                              (case bin_objects st2 vofs of
                                 None \<Rightarrow> Inl (KeyError, st2)
                               | Some v \<Rightarrow>
                                   if hashable k
                                   then dict_loop load krs vrs (dict_set d k v) st2
                                   else Inl (TypeError, st2)))))))"

definition BinLoadArray ::
  "loader \<Rightarrow> string \<Rightarrow> nat \<Rightarrow> nat \<Rightarrow> nat \<Rightarrow> plist_state \<Rightarrow> (pyval \<times> plist_state) res" where
  "BinLoadArray load b ofs objtype objarg st =
     (case array_refs b ofs objarg st of
        Inl e \<Rightarrow> Inl (e, st)
      | Inr objref \<Rightarrow>
          (case array_loop load objref [] st of
             Inl e \<Rightarrow> Inl e
           | Inr (a, st') \<Rightarrow> Inr (PList a, st')))"

definition BinLoadSet ::
  "loader \<Rightarrow> string \<Rightarrow> nat \<Rightarrow> nat \<Rightarrow> nat \<Rightarrow> plist_state \<Rightarrow> (pyval \<times> plist_state) res" where
  "BinLoadSet load b ofs objtype objarg st =
     (case array_refs b ofs objarg st of
        Inl e \<Rightarrow> Inl (e, st)
      | Inr objref \<Rightarrow>
          (case set_loop load objref [] st of
             Inl e \<Rightarrow> Inl e
           | Inr (a, st') \<Rightarrow> Inr (PSet a, st')))"

definition BinLoadDict ::
  "loader \<Rightarrow> string \<Rightarrow> nat \<Rightarrow> nat \<Rightarrow> nat \<Rightarrow> plist_state \<Rightarrow> (pyval \<times> plist_state) res" where
  "BinLoadDict load b ofs objtype objarg st =
     (case dict_refs b ofs objarg st of
        Inl e \<Rightarrow> Inl (e, st)
      | Inr (keyref, objref) \<Rightarrow>
          (case dict_loop load keyref objref [] st of
             Inl e \<Rightarrow> Inl e
           | Inr (d, st') \<Rightarrow> Inr (PDict d, st')))"

text \<open>The table \<open>_type_lookup\<close>: every tag from 0 to 15 has a loader.\<close>

definition type_lookup ::
  "loader \<Rightarrow> nat \<Rightarrow> string \<Rightarrow> nat \<Rightarrow> nat \<Rightarrow> plist_state \<Rightarrow> (pyval \<times> plist_state) res" where
  "type_lookup load objtype b ofs objarg st =
     (if objtype = 0 then leaf st (BinLoadSimple ofs objtype objarg)
      else if objtype = 1 then leaf st (BinLoadInt b ofs objtype objarg)
      else if objtype = 2 then leaf st (BinLoadFloat b ofs objtype objarg)
      else if objtype = 3 then leaf st (BinLoadDate b ofs objtype objarg)
      else if objtype = 4 then leaf st (BinLoadData b ofs objtype objarg)
      else if objtype = 5 then leaf st (BinLoadAsciiStr b ofs objtype objarg)
      else if objtype = 6 then leaf st (BinLoadUnicode b ofs objtype objarg)
      else if objtype = 7 then leaf st (BinLoadUnused ofs objtype objarg)
      else if objtype = 8 then leaf st (BinLoadUid b ofs objtype objarg)
      else if objtype = 9 then leaf st (BinLoadUnused ofs objtype objarg)
      else if objtype = 10 then BinLoadArray load b ofs objtype objarg st
      else if objtype = 11 then leaf st (BinLoadUnused ofs objtype objarg)
      else if objtype = 12 then BinLoadSet load b ofs objtype objarg st
      else if objtype = 13 then BinLoadDict load b ofs objtype objarg st
      else if objtype = 14 then leaf st (BinLoadUnused ofs objtype objarg)
      else if objtype = 15 then leaf st (BinLoadUnused ofs objtype objarg)
      else Inl (KeyError, st))"

text \<open>
  One call of \<open>_BinLoadObject\<close>, with \<open>load\<close> for the calls nested in it.
\<close>

definition load_object :: "loader \<Rightarrow> nat \<Rightarrow> plist_state \<Rightarrow> (pyval \<times> plist_state) res" where
  "load_object load ofs st =
     (let pos = ofs in
      case bin_objects st pos of
        Some x \<Rightarrow> Inr (x, st)
      | None \<Rightarrow>
          (case plist_bin st of
             None \<Rightarrow> Inl (TypeError, st)
           | Some b \<Rightarrow>
               if \<not> pos < length b then Inl (IndexError, st)
               else
                 (let objtype = of_char (b ! pos) div 16;
                      objarg = of_char (b ! pos) mod 16
                  in case type_lookup load objtype b pos objarg st of
                       Inl (e, st') \<Rightarrow> Inl (convert_error pos objtype e, st')
                     | Inr (x, st') \<Rightarrow>
                         Inr (x, st'\<lparr> bin_objects := (bin_objects st')(pos \<mapsto> x) \<rparr>))))"

text \<open>
  \<open>_BinLoadObject\<close>. The first argument bounds the depth of nested calls: the
  interpreter's recursion limit, at which Python raises \<open>RuntimeError\<close>. That is the
  only way the recursion can fail to return (object references that form a cycle).
\<close>

primrec BinLoadObject :: "nat \<Rightarrow> nat \<Rightarrow> plist_state \<Rightarrow> (pyval \<times> plist_state) res" where
  "BinLoadObject 0 = (\<lambda>ofs st. Inl (RuntimeError, st))"
| "BinLoadObject (Suc n) = load_object (BinLoadObject n)"

definition BinLoadObjects :: "nat \<Rightarrow> plist_state \<Rightarrow> (pyval \<times> plist_state) res" where
  "BinLoadObjects depth st =
     (case bin_topObject st of
        None \<Rightarrow> Inl (KeyError, st)
      | Some object_no \<Rightarrow>
          (case offset_of st object_no of
             Inl e \<Rightarrow> Inl (e, st)
           | Inr ofs \<Rightarrow> BinLoadObject depth ofs st))"

definition BinaryParse :: "nat \<Rightarrow> plist_state \<Rightarrow> plist_state res" where
  "BinaryParse depth st =
     (case BinLoadHeader None st of
        Inl e \<Rightarrow> Inl (e, st)
      | Inr st1 \<Rightarrow>
          (case BinLoadFooter st1 of
             Inl e \<Rightarrow> Inl (e, st1)
           | Inr st2 \<Rightarrow>
               (case BinLoadOffsetTable st2 of
                  Inl e \<Rightarrow> Inl e
                | Inr st3 \<Rightarrow>
                    (case BinLoadObjects depth st3 of
                       Inl e \<Rightarrow> Inl e
                     | Inr (objects, st4) \<Rightarrow> Inr (st4\<lparr> plist := objects \<rparr>)))))"

subsection \<open>The XML decoder: the three stacks and the handlers\<close>

text \<open>
  The stacks are Python lists: the last element is the top. Reading the top of an
  empty stack, and popping it, is an \<open>IndexError\<close>.
\<close>

definition APPLE_PLIST_ELEMENTS :: "string list" where
  "APPLE_PLIST_ELEMENTS =
     [''plist'', ''array'', ''dict'', ''key'', ''string'', ''integer'', ''date'',
      ''false'', ''true'', ''data'']"

definition NewMode :: "string \<Rightarrow> plist_state \<Rightarrow> plist_state" where
  "NewMode mode st = st\<lparr> current_mode := current_mode st @ [mode] \<rparr>"

definition CurrentMode :: "plist_state \<Rightarrow> error + string" where
  "CurrentMode st = (if current_mode st = [] then Inl IndexError else Inr (last (current_mode st)))"

definition ParentMode :: "plist_state \<Rightarrow> error + string" where
  "ParentMode st =
     (if length (current_mode st) < 2 then Inl IndexError
      else Inr (last (butlast (current_mode st))))"

definition ReleaseMode :: "plist_state \<Rightarrow> error + plist_state" where
  "ReleaseMode st =
     (if current_mode st = [] then Inl IndexError
      else Inr (st\<lparr> current_mode := butlast (current_mode st) \<rparr>))"

definition NewValue :: "pyval \<Rightarrow> plist_state \<Rightarrow> plist_state" where
  "NewValue v st = st\<lparr> current_value := current_value st @ [v] \<rparr>"

definition CurrentValue :: "plist_state \<Rightarrow> error + pyval" where
  "CurrentValue st =
     (if current_value st = [] then Inl IndexError else Inr (last (current_value st)))"

definition ReleaseValue :: "plist_state \<Rightarrow> error + plist_state" where
  "ReleaseValue st =
     (if current_value st = [] then Inl IndexError
      else Inr (st\<lparr> current_value := butlast (current_value st) \<rparr>))"

definition NewKey :: "string \<Rightarrow> plist_state \<Rightarrow> plist_state" where
  "NewKey k st = st\<lparr> current_key := current_key st @ [k] \<rparr>"

definition CurrentKey :: "plist_state \<Rightarrow> error + string" where
  "CurrentKey st = (if current_key st = [] then Inl IndexError else Inr (last (current_key st)))"

definition ReleaseKey :: "plist_state \<Rightarrow> error + plist_state" where
  "ReleaseKey st =
     (if current_key st = [] then Inl IndexError
      else Inr (st\<lparr> current_key := butlast (current_key st) \<rparr>))"

subsubsection \<open>The conversions of leaf text (Python runtime)\<close>

definition is_digit :: "char \<Rightarrow> bool" where
  "is_digit c \<longleftrightarrow> (48::nat) \<le> of_char c \<and> (of_char c :: nat) \<le> 57"

definition digit_val :: "char \<Rightarrow> nat" where
  "digit_val c = of_char c - 48"

definition dec_val :: "string \<Rightarrow> nat" where
  "dec_val s = foldl (\<lambda>n c. n * 10 + digit_val c) 0 s"

definition is_space :: "char \<Rightarrow> bool" where
  \<comment> \<open>the characters that \<open>strip()\<close> and \<open>int()\<close> skip\<close>
  "is_space c \<longleftrightarrow> (of_char c :: nat) \<in> {9, 10, 11, 12, 13, 32}"

definition py_strip :: "string \<Rightarrow> string" where
  "py_strip s = rev (dropWhile is_space (rev (dropWhile is_space s)))"

text \<open>\<open>int(value)\<close>: blanks around, an optional sign, one or more digits.\<close>

definition py_int :: "string \<Rightarrow> error + int" where
  "py_int s =
     (let t = py_strip s;
          neg = (t \<noteq> [] \<and> hd t = CHR ''-'');
          u = (if t \<noteq> [] \<and> (hd t = CHR ''-'' \<or> hd t = CHR ''+'') then tl t else t)
      in if u \<noteq> [] \<and> list_all is_digit u
         then Inr (if neg then - int (dec_val u) else int (dec_val u))
         else Inl ValueError)"

text \<open>
  \<open>datetime.datetime.strptime(date_str, '%Y-%m-%dT%H:%M:%SZ')\<close>: four digits, then
  fields of one or two digits in their ranges; the day can be a blank and a digit; the
  constructor rejects a year 0, a second above 59 and a day that the month does not have.
  Every failure is a \<open>ValueError\<close>.
\<close>

definition days_in_month :: "nat \<Rightarrow> nat \<Rightarrow> nat" where
  "days_in_month y m =
     (if m = 2 then (if y mod 4 = 0 \<and> (y mod 100 \<noteq> 0 \<or> y mod 400 = 0) then 29 else 28)
      else if m \<in> {4, 6, 9, 11} then 30 else 31)"

definition split_at :: "char \<Rightarrow> string \<Rightarrow> (string \<times> string) option" where
  \<comment> \<open>the text before the first \<open>c\<close> and the text after it\<close>
  "split_at c s =
     (if c \<in> set s then Some (takeWhile (\<lambda>x. x \<noteq> c) s, tl (dropWhile (\<lambda>x. x \<noteq> c) s))
      else None)"

definition field2 :: "string \<Rightarrow> bool" where
  "field2 f \<longleftrightarrow> (length f = 1 \<or> length f = 2) \<and> list_all is_digit f"

definition ParseDate :: "string \<Rightarrow> error + pydatetime" where
  "ParseDate date_str =
     (case split_at CHR ''-'' date_str of None \<Rightarrow> Inl ValueError | Some (ys, r1) \<Rightarrow>
      case split_at CHR ''-'' r1 of None \<Rightarrow> Inl ValueError | Some (ms, r2) \<Rightarrow>
      case split_at CHR ''T'' r2 of None \<Rightarrow> Inl ValueError | Some (ds0, r3) \<Rightarrow>
      case split_at CHR '':'' r3 of None \<Rightarrow> Inl ValueError | Some (hs, r4) \<Rightarrow>
      case split_at CHR '':'' r4 of None \<Rightarrow> Inl ValueError | Some (mins, r5) \<Rightarrow>
      case split_at CHR ''Z'' r5 of None \<Rightarrow> Inl ValueError | Some (ss, r6) \<Rightarrow>
        let ds = (if length ds0 = 2 \<and> hd ds0 = CHR '' '' then tl ds0 else ds0);
            y = dec_val ys; m = dec_val ms; d = dec_val ds;
            h = dec_val hs; mi = dec_val mins; sec = dec_val ss
        in if length ys = 4 \<and> list_all is_digit ys \<and> field2 ms \<and> field2 ds \<and> field2 hs
              \<and> field2 mins \<and> field2 ss \<and> r6 = []
              \<and> 1 \<le> y \<and> 1 \<le> m \<and> m \<le> 12 \<and> 1 \<le> d \<and> d \<le> days_in_month y m
              \<and> h \<le> 23 \<and> mi \<le> 59 \<and> sec \<le> 59
           then Inr (Datetime y m d h mi sec 0)
           else Inl ValueError)"

text \<open>
  \<open>base64.b64decode\<close>, that is \<open>binascii.a2b_base64\<close>: characters outside the alphabet
  are skipped; a pad character ends the input once the quad holds two characters and
  another pad follows, or three characters; bits left over at the end are an
  "Incorrect padding" error, which \<open>b64decode\<close> raises as \<open>TypeError\<close>.
\<close>

definition b64_alphabet :: string where
  "b64_alphabet = ''ABCDEFGHIJKLMNOPQRSTUVWXYZabcdefghijklmnopqrstuvwxyz0123456789+/''"

fun index_of :: "'a \<Rightarrow> 'a list \<Rightarrow> nat" where
  "index_of x [] = 0"
| "index_of x (y # ys) = (if x = y then 0 else Suc (index_of x ys))"

definition b64_valid :: "char \<Rightarrow> bool" where
  "b64_valid c \<longleftrightarrow> c \<in> set b64_alphabet \<or> c = CHR ''=''"

text \<open>
  The state of the decoder: the bits not yet written (\<open>leftchar\<close>, \<open>leftbits\<close> of
  them) and the position in the quad.
\<close>

fun a2b_loop :: "string \<Rightarrow> nat \<Rightarrow> nat \<Rightarrow> nat \<Rightarrow> error + string" where
  "a2b_loop [] leftchar leftbits quad_pos = (if leftbits \<noteq> 0 then Inl TypeError else Inr [])"
| "a2b_loop (c # cs) leftchar leftbits quad_pos =
     (if c = CHR ''='' then
        (if quad_pos < 2
            \<or> (quad_pos = 2 \<and> (case filter b64_valid cs of [] \<Rightarrow> True | x # _ \<Rightarrow> x \<noteq> CHR ''=''))
         then a2b_loop cs leftchar leftbits quad_pos
         else Inr [])
      else if c \<notin> set b64_alphabet then a2b_loop cs leftchar leftbits quad_pos
      else
        (let q = (quad_pos + 1) mod 4;
             lc = leftchar * 64 + index_of c b64_alphabet;
             lb = leftbits + 6
         in if lb \<ge> 8 then
              (case a2b_loop cs (lc mod 2 ^ (lb - 8)) (lb - 8) q of
                 Inl e \<Rightarrow> Inl e
               | Inr out \<Rightarrow> Inr (char_of (lc div 2 ^ (lb - 8)) # out))
            else a2b_loop cs lc lb q))"

definition ParseData :: "string \<Rightarrow> error + string" where
  "ParseData data_str = a2b_loop data_str 0 0 0"

text \<open>\<open>base64.b64encode\<close>.\<close>

fun b64encode :: "string \<Rightarrow> string" where
  "b64encode [] = []"
| "b64encode [a] =
     (let n = (of_char a :: nat) * 16 in
      [b64_alphabet ! (n div 64), b64_alphabet ! (n mod 64), CHR ''='', CHR ''=''])"
| "b64encode [a, b] =
     (let n = ((of_char a :: nat) * 256 + of_char b) * 4 in
      [b64_alphabet ! (n div 4096), b64_alphabet ! (n div 64 mod 64), b64_alphabet ! (n mod 64),
       CHR ''=''])"
| "b64encode (a # b # c # s) =
     (let n = ((of_char a :: nat) * 256 + of_char b) * 256 + of_char c in
      [b64_alphabet ! (n div 262144), b64_alphabet ! (n div 4096 mod 64),
       b64_alphabet ! (n div 64 mod 64), b64_alphabet ! (n mod 64)] @ b64encode s)"

subsubsection \<open>The handlers\<close>

datatype xml_event =
    XmlDecl string "string option" int
  | StartElement string "(string \<times> string) list"
  | EndElement string
  | CharacterData string

definition XmlDeclHandler :: "string \<Rightarrow> string option \<Rightarrow> int \<Rightarrow> plist_state \<Rightarrow> plist_state" where
  "XmlDeclHandler version encoding standalone st = st\<lparr> plist_xml_encoding := encoding \<rparr>"

definition StartElementHandler ::
  "string \<Rightarrow> (string \<times> string) list \<Rightarrow> plist_state \<Rightarrow> error + plist_state" where
  "StartElementHandler name attributes st =
     (if name \<notin> set APPLE_PLIST_ELEMENTS then Inl (MalformedPlistError (ElementMsg name))
      else if name = ''plist'' then
        Inr (let st1 = NewMode ''plist'' st in
             case map_of attributes ''version'' of
               None \<Rightarrow> st1
             | Some ver \<Rightarrow> st1\<lparr> plist_version := Some ver \<rparr>)
      else if take 1 (current_mode st) \<noteq> [''plist''] then Inl (MalformedPlistError NoMsg)
      else if name = ''key'' then Inr (NewMode name st)
      else if name = ''dict'' then Inr (NewValue (PDict []) (NewMode name st))
      else if name = ''array'' then Inr (NewValue (PList []) (NewMode name st))
      else if name \<in> set [''string'', ''integer'', ''date'', ''data''] then Inr (NewMode name st)
      else if name \<in> set [''true'', ''false''] then
        Inr (NewValue (PBool (name = ''true'')) (NewMode ''value'' (NewMode name st)))
      else Inl NotImplementedError)"

definition CharacterDataHandler :: "string \<Rightarrow> plist_state \<Rightarrow> error + plist_state" where
  "CharacterDataHandler v st =
     (if v = [] \<or> v = [CHR 0x0A] then Inr st
      else case CurrentMode st of
        Inl e \<Rightarrow> Inl e
      | Inr mode \<Rightarrow>
          if mode \<in> set [''dict'', ''array''] then Inr st
          else if mode = ''key'' then Inr (if v \<noteq> [] then NewKey v st else st)
          else if mode = ''string'' then Inr (NewMode ''value'' (NewValue (PStr v) st))
          else if mode = ''integer'' then
            (case py_int v of
               Inl e \<Rightarrow> Inl e
             | Inr i \<Rightarrow> Inr (NewMode ''value'' (NewValue (PInt i) st)))
          else if mode = ''date'' then
            (case ParseDate v of
               Inl e \<Rightarrow> Inl e
             | Inr d \<Rightarrow> Inr (NewMode ''value'' (NewValue (PDate d) st)))
          else if mode = ''data'' then
            (case ParseData v of
               Inl e \<Rightarrow> Inl e
             | Inr d \<Rightarrow> Inr (NewMode ''value'' (NewValue (PStr d) st)))
          else Inr st)"

text \<open>
  The first part of \<open>_EndElementHandler\<close> for a name other than \<open>plist\<close>: the value
  that ends here, or \<open>None\<close>.
\<close>

definition end_value :: "string \<Rightarrow> plist_state \<Rightarrow> (pyval \<times> plist_state) res" where
  "end_value name st =
     (case CurrentMode st of
        Inl e \<Rightarrow> Inl (e, st)
      | Inr mode \<Rightarrow>
          if mode = ''value'' then
            (case ReleaseMode st of
               Inl e \<Rightarrow> Inl (e, st)
             | Inr st1 \<Rightarrow>
                 (case CurrentValue st1 of
                    Inl e \<Rightarrow> Inl (e, st1)
                  | Inr v \<Rightarrow>
                      (case ReleaseValue st1 of
                         Inl e \<Rightarrow> Inl (e, st1)
                       | Inr st2 \<Rightarrow> Inr (v, st2))))
          else if name \<in> set [''array'', ''dict''] then
            (case CurrentValue st of
               Inl e \<Rightarrow> Inl (e, st)
             | Inr v \<Rightarrow>
                 (case ReleaseValue st of Inl e \<Rightarrow> Inl (e, st) | Inr st2 \<Rightarrow> Inr (v, st2)))
          else Inr (PNone, st))"

text \<open>
  The last part: the value is stored in the container on top of the value stack. An
  item assignment on anything but a dict is a \<open>TypeError\<close> (the key is a string); only a
  list has \<open>append\<close>.
\<close>

definition store_value :: "pyval \<Rightarrow> plist_state \<Rightarrow> error + plist_state" where
  "store_value v st =
     (case CurrentMode st of
        Inl e \<Rightarrow> Inl e
      | Inr mode \<Rightarrow>
          if mode = ''dict'' then
            (case CurrentValue st of
               Inl e \<Rightarrow> Inl e
             | Inr cur \<Rightarrow>
                 (case CurrentKey st of
                    Inl e \<Rightarrow> Inl e
                  | Inr k \<Rightarrow>
                      (case cur of
                         PDict d \<Rightarrow>
                           Inr (st\<lparr> current_value :=
                                  butlast (current_value st) @ [PDict (dict_set d (PStr k) v)] \<rparr>)
                       | _ \<Rightarrow> Inl TypeError)))
          else if mode = ''array'' then
            (case CurrentValue st of
               Inl e \<Rightarrow> Inl e
             | Inr cur \<Rightarrow>
                 (case cur of
                    PList a \<Rightarrow>
                      Inr (st\<lparr> current_value := butlast (current_value st) @ [PList (a @ [v])] \<rparr>)
                  | _ \<Rightarrow> Inl AttributeError))
          else Inr st)"

definition EndElementHandler :: "string \<Rightarrow> plist_state \<Rightarrow> plist_state res" where
  "EndElementHandler name st =
     (if name = ''plist'' then
        (if length (current_value st) > 0 then
           (case CurrentValue st of
              Inl e \<Rightarrow> Inl (e, st)
            | Inr v \<Rightarrow> raising (st\<lparr> plist := v \<rparr>) (ReleaseValue (st\<lparr> plist := v \<rparr>)))
         else Inr (st\<lparr> plist := PDict [] \<rparr>))
      else
        (case end_value name st of
           Inl e \<Rightarrow> Inl e
         | Inr (v, st1) \<Rightarrow>
             (case (if name \<noteq> ''key''
                    then (case ParentMode st1 of Inl e \<Rightarrow> Inl e | Inr pm \<Rightarrow> Inr (pm = ''dict''))
                    else Inr False) of
                Inl e \<Rightarrow> Inl (e, st1)
              | Inr release_key \<Rightarrow>
                  (case ReleaseMode st1 of
                     Inl e \<Rightarrow> Inl (e, st1)
                   | Inr st2 \<Rightarrow>
                       (case CurrentMode st2 of
                          Inl e \<Rightarrow> Inl (e, st2)
                        | Inr mode \<Rightarrow>
                            if mode = ''plist'' then Inr (NewMode ''value'' (NewValue v st2))
                            else
                              (case store_value v st2 of
                                 Inl e \<Rightarrow> Inl (e, st2)
                               | Inr st3 \<Rightarrow>
                                   if release_key then raising st3 (ReleaseKey st3)
                                   else Inr st3))))))"

text \<open>
  The parser calls the handlers in the order of the document. The handlers of a start
  tag and of character data raise before they change anything.
\<close>

fun handle :: "xml_event \<Rightarrow> plist_state \<Rightarrow> plist_state res" where
  "handle (XmlDecl version encoding standalone) st =
     Inr (XmlDeclHandler version encoding standalone st)"
| "handle (StartElement name attributes) st = raising st (StartElementHandler name attributes st)"
| "handle (EndElement name) st = EndElementHandler name st"
| "handle (CharacterData v) st = raising st (CharacterDataHandler v st)"

fun run_handlers :: "xml_event list \<Rightarrow> plist_state \<Rightarrow> plist_state res" where
  "run_handlers [] st = Inr st"
| "run_handlers (ev # evs) st =
     (case handle ev st of Inl e \<Rightarrow> Inl e | Inr st' \<Rightarrow> run_handlers evs st')"

subsection \<open>The XML parser (xml.parsers.expat)\<close>

text \<open>
  The parser is a C library, not code of this module. This is a model of the calls it
  makes to the four handlers for a document given in one piece, in ASCII, made of an
  optional XML declaration, a DOCTYPE without internal subset, comments, processing
  instructions, tags with attributes, character data and the five predefined entities.
  Character data outside the root element is not reported. A run of character data is
  reported in pieces: each line feed is a call of its own, each entity too. \<open>Parse\<close> is
  called without \<open>isfinal\<close>, so the end of the text is not an error, whatever is open.
  The events come with how the parser ended: \<open>Complete\<close>, \<open>SyntaxError\<close> (an
  \<open>ExpatError\<close> after the events) or \<open>Unmodelled\<close> (the text leaves the fragment
  described here).
\<close>

datatype raw = Markup string | Chars string | Newline | Entity string | Partial

datatype lexmode = LText | LTag | LEnt

datatype ending = Complete | SyntaxError | Unmodelled

definition flush :: "string \<Rightarrow> raw list" where
  "flush acc = (if acc = [] then [] else [Chars acc])"

fun lex :: "lexmode \<Rightarrow> string \<Rightarrow> string \<Rightarrow> raw list" where
  "lex LText acc [] = flush acc"
| "lex LTag acc [] = [Partial]"
| "lex LEnt acc [] = [Partial]"
| "lex LText acc (c # cs) =
     (if c = CHR ''<'' then flush acc @ lex LTag [] cs
      else if c = CHR 0x0A then flush acc @ Newline # lex LText [] cs
      else if c = CHR ''&'' then flush acc @ lex LEnt [] cs
      else lex LText (acc @ [c]) cs)"
| "lex LTag acc (c # cs) =
     (if c = CHR ''>'' then Markup acc # lex LText [] cs else lex LTag (acc @ [c]) cs)"
| "lex LEnt acc (c # cs) =
     (if c = CHR '';'' then Entity acc # lex LText [] cs else lex LEnt (acc @ [c]) cs)"

definition is_xml_space :: "char \<Rightarrow> bool" where
  "is_xml_space c \<longleftrightarrow> (of_char c :: nat) \<in> {9, 10, 13, 32}"

definition is_name_start :: "char \<Rightarrow> bool" where
  "is_name_start c \<longleftrightarrow>
     (let n = (of_char c :: nat) in
      (65 \<le> n \<and> n \<le> 90) \<or> (97 \<le> n \<and> n \<le> 122) \<or> c = CHR ''_'' \<or> c = CHR '':'')"

definition is_name_char :: "char \<Rightarrow> bool" where
  "is_name_char c \<longleftrightarrow> is_name_start c \<or> is_digit c \<or> c = CHR ''-'' \<or> c = CHR ''.''"

definition predefined :: "string \<Rightarrow> char option" where
  "predefined n =
     (if n = ''lt'' then Some CHR ''<'' else if n = ''gt'' then Some CHR ''>''
      else if n = ''amp'' then Some CHR ''&'' else if n = ''quot'' then Some (CHR 0x22)
      else if n = ''apos'' then Some (CHR 0x27) else None)"

text \<open>
  The attributes of a tag, from the text after its name: \<open>None\<close> when that text is not
  a list of \<open>name="value"\<close>. The first argument bounds the number of attributes.
\<close>

fun attrs :: "nat \<Rightarrow> string \<Rightarrow> (string \<times> string) list option" where
  "attrs 0 s = (if list_all is_xml_space s then Some [] else None)"
| "attrs (Suc k) s =
     (if list_all is_xml_space s then Some []
      else if \<not> is_xml_space (hd s) then None
      else
        (let s1 = dropWhile is_xml_space s;
             name = takeWhile is_name_char s1;
             s2 = dropWhile is_xml_space (dropWhile is_name_char s1)
         in if name = [] \<or> \<not> is_name_start (hd name) \<or> s2 = [] \<or> hd s2 \<noteq> CHR ''='' then None
            else
              (let s3 = dropWhile is_xml_space (tl s2) in
               if s3 = [] \<or> (hd s3 \<noteq> CHR 0x22 \<and> hd s3 \<noteq> CHR 0x27) then None
               else
                 (let q = hd s3;
                      v = takeWhile (\<lambda>c. c \<noteq> q) (tl s3);
                      s4 = dropWhile (\<lambda>c. c \<noteq> q) (tl s3)
                  in if s4 = [] \<or> CHR ''&'' \<in> set v then None
                     else (case attrs k (tl s4) of
                             None \<Rightarrow> None
                           | Some rest \<Rightarrow> Some ((name, v) # rest))))))"

definition py_lower :: "string \<Rightarrow> string" where
  "py_lower s =
     map (\<lambda>c. if (65::nat) \<le> of_char c \<and> (of_char c :: nat) \<le> 90
              then char_of ((of_char c :: nat) + 32) else c) s"

definition emit :: "xml_event \<Rightarrow> xml_event list \<times> ending \<Rightarrow> xml_event list \<times> ending" where
  "emit ev r = (ev # fst r, snd r)"

text \<open>
  The declaration \<open><?xml version=... encoding=... standalone=...?>\<close>, from the text
  between \<open><\<close> and \<open>>\<close>.
\<close>

definition xml_decl :: "string \<Rightarrow> xml_event option" where
  "xml_decl b =
     (if last b \<noteq> CHR ''?'' then None
      else case attrs (length b) (butlast (drop 4 b)) of
        None \<Rightarrow> None
      | Some a \<Rightarrow>
          (case map_of a ''version'' of
             None \<Rightarrow> None
           | Some ver \<Rightarrow>
               if (case map_of a ''encoding'' of
                     None \<Rightarrow> False
                   | Some enc \<Rightarrow> py_lower enc \<notin> set [''utf-8'', ''us-ascii''])
               then None
               else Some (XmlDecl ver (map_of a ''encoding'')
                            (case map_of a ''standalone'' of
                               None \<Rightarrow> - 1
                             | Some sa \<Rightarrow> if sa = ''yes'' then 1 else 0))))"

text \<open>
  The events of the tokens; \<open>opens\<close> are the open elements, the innermost first, and
  \<open>seen\<close> says that the root element has started.
\<close>

fun interp :: "raw list \<Rightarrow> string list \<Rightarrow> bool \<Rightarrow> xml_event list \<times> ending" where
  "interp [] opens seen = ([], Complete)"
| "interp (Partial # rs) opens seen = ([], Complete)"
| "interp (Newline # rs) opens seen =
     (if opens = [] then interp rs opens seen
      else emit (CharacterData [CHR 0x0A]) (interp rs opens seen))"
| "interp (Chars s # rs) opens seen =
     (if CHR 0x0D \<in> set s \<or> CHR '']'' \<in> set s then ([], Unmodelled)
      else if opens = [] then
        (if list_all is_xml_space s then interp rs opens seen else ([], SyntaxError))
      else emit (CharacterData s) (interp rs opens seen))"
| "interp (Entity n # rs) opens seen =
     (if opens = [] then ([], SyntaxError)
      else case predefined n of
        None \<Rightarrow> ([], Unmodelled)
      | Some c \<Rightarrow> emit (CharacterData [c]) (interp rs opens seen))"
| "interp (Markup b # rs) opens seen =
     (if b = [] then ([], SyntaxError)
      else if hd b = CHR ''?'' then
        (if last b \<noteq> CHR ''?'' \<or> length b < 2 then ([], Unmodelled)
         else if take 4 b = ''?xml'' \<and> \<not> is_name_char (b ! 4) then ([], SyntaxError)
         else interp rs opens seen)
      else if hd b = CHR ''!'' then
        (if take 3 b = ''!--'' then
           (if length b \<ge> 5 \<and> drop (length b - 2) b = ''--'' then interp rs opens seen
            else ([], Unmodelled))
         else if take 8 b = ''!DOCTYPE'' then
           (if seen then ([], SyntaxError)
            else if CHR ''['' \<in> set b then ([], Unmodelled)
            else interp rs opens seen)
         else ([], Unmodelled))
      else if hd b = CHR ''/'' then
        (let name = takeWhile is_name_char (tl b) in
         if \<not> list_all is_xml_space (dropWhile is_name_char (tl b)) then ([], SyntaxError)
         else if opens = [] \<or> hd opens \<noteq> name then ([], SyntaxError)
         else emit (EndElement name) (interp rs (tl opens) seen))
      else
        (let empty = (last b = CHR ''/'');
             body = (if empty then butlast b else b);
             name = takeWhile is_name_char body
         in if name = [] \<or> \<not> is_name_start (hd name) then ([], SyntaxError)
            else if opens = [] \<and> seen then ([], SyntaxError)
            else case attrs (length body) (dropWhile is_name_char body) of
              None \<Rightarrow> ([], Unmodelled)
            | Some a \<Rightarrow>
                if \<not> distinct (map fst a) then ([], SyntaxError)
                else if empty then
                  emit (StartElement name a) (emit (EndElement name) (interp rs opens True))
                else emit (StartElement name a) (interp rs (name # opens) True)))"

definition expat_events :: "string \<Rightarrow> xml_event list \<times> ending" where
  "expat_events text =
     (if \<exists>c \<in> set text. (of_char c :: nat) \<ge> 128 then ([], Unmodelled)
      else case lex LText [] text of
        Markup b # rs \<Rightarrow>
          if take 4 b = ''?xml'' \<and> length b > 4 \<and> \<not> is_name_char (b ! 4) then
            (case xml_decl b of
               None \<Rightarrow> ([], Unmodelled)
             | Some ev \<Rightarrow> emit ev (interp rs [] False))
          else interp (Markup b # rs) [] False
      | rs \<Rightarrow> interp rs [] False)"

text \<open>
  \<open>parser.Parse(text)\<close> with the handlers of \<open>_GetParser\<close>: an exception of a handler
  ends the parse and reaches the caller.
\<close>

definition expat_Parse :: "string \<Rightarrow> plist_state \<Rightarrow> plist_state res" where
  "expat_Parse text st =
     (case expat_events text of (evs, ending) \<Rightarrow>
        (case run_handlers evs st of
           Inl e \<Rightarrow> Inl e
         | Inr st' \<Rightarrow>
             (case ending of
                Complete \<Rightarrow> Inr st'
              | SyntaxError \<Rightarrow> Inl (ExpatError, st')
              | Unmodelled \<Rightarrow> Inl (NotModelled, st'))))"

subsection \<open>The XML encoder\<close>

definition PLIST_HEAD :: string where
  "PLIST_HEAD =
     ''<?xml version=\"1.0\" encoding=\"UTF-8\"?>'' @ [CHR 0x0A] @
     ''<!DOCTYPE plist PUBLIC \"-//Apple Computer//DTD PLIST 1.0//EN\" \"http://www.apple.com/DTDs/PropertyList-1.0.dtd\">'' @ [CHR 0x0A] @
     ''<plist version=\"1.0\">'' @ [CHR 0x0A]"

definition PLIST_FOOT :: string where
  "PLIST_FOOT = [CHR 0x0A] @ ''</plist>'' @ [CHR 0x0A]"

definition INDENT_CHAR :: string where
  "INDENT_CHAR = ''  ''"

definition indent_of :: "nat \<Rightarrow> string" where
  \<comment> \<open>\<open>INDENT_CHAR * indent_num\<close>\<close>
  "indent_of n = concat (replicate n INDENT_CHAR)"

fun join :: "string \<Rightarrow> string list \<Rightarrow> string" where
  "join sep [] = []"
| "join sep [x] = x"
| "join sep (x # y # ys) = x @ sep @ join sep (y # ys)"

text \<open>Decimal digits, as \<open>%d\<close> writes them.\<close>

fun dec_str :: "nat \<Rightarrow> string" where
  "dec_str n =
     (if n < 10 then [char_of (48 + n)] else dec_str (n div 10) @ [char_of (48 + n mod 10)])"

declare dec_str.simps [simp del]

definition format_d :: "int \<Rightarrow> string" where
  "format_d i = (if i < 0 then ''-'' @ dec_str (nat (- i)) else dec_str (nat i))"

definition zero_pad :: "nat \<Rightarrow> string \<Rightarrow> string" where
  "zero_pad w s = replicate (w - length s) CHR ''0'' @ s"

text \<open>
  \<open>'%f' % value\<close>: the exact value of the float, rounded to six decimals, ties to even
  (the C library's \<open>printf\<close>).
\<close>

definition round_scaled :: "nat \<Rightarrow> int \<Rightarrow> nat" where
  \<comment> \<open>\<open>m * 2^e\<close> rounded to the nearest natural number, ties to even\<close>
  "round_scaled m e =
     (if e \<ge> 0 then m * 2 ^ nat e
      else let d = 2 ^ nat (- e); q = m div d; r = m mod d in
        if 2 * r > d \<or> (2 * r = d \<and> odd q) then q + 1 else q)"

definition format_f :: "pyfloat \<Rightarrow> string" where
  "format_f f =
     (case (case f of Float32 w \<Rightarrow> (8, 23, w) | Float64 w \<Rightarrow> (11::nat, 52::nat, w)) of
        (eb, mb, w) \<Rightarrow>
          let s = ((w div 2 ^ (eb + mb)) mod 2 = 1);
              e = (w div 2 ^ mb) mod 2 ^ eb;
              m = w mod 2 ^ mb
          in if e = 2 ^ eb - 1 then (if m \<noteq> 0 then ''nan'' else if s then ''-inf'' else ''inf'')
             else
               (let M = (if e = 0 then m else 2 ^ mb + m);
                    E = int (if e = 0 then 1 else e) - int (2 ^ (eb - 1) - 1) - int mb;
                    scaled = round_scaled (M * 10 ^ 6) E
                in (if s then ''-'' else []) @ dec_str (scaled div 10 ^ 6) @ ''.''
                   @ zero_pad 6 (dec_str (scaled mod 10 ^ 6))))"

text \<open>
  \<open>value.strftime('%Y-%m-%dT%H:%M:%SZ')\<close>: Python 2 refuses a year before 1900 with a
  \<open>ValueError\<close>. The calendar fields of \<open>EPOCH + timedelta\<close> are not computed here.
\<close>

definition strftime :: "pydatetime \<Rightarrow> error + string" where
  "strftime d =
     (case d of
        EpochOffset w \<Rightarrow> Inl NotModelled
      | Datetime y m dd h mi sec us \<Rightarrow>
          if y < 1900 then Inl ValueError
          else Inr (zero_pad 4 (dec_str y) @ ''-'' @ zero_pad 2 (dec_str m) @ ''-''
                    @ zero_pad 2 (dec_str dd) @ ''T'' @ zero_pad 2 (dec_str h) @ '':''
                    @ zero_pad 2 (dec_str mi) @ '':'' @ zero_pad 2 (dec_str sec) @ ''Z''))"

text \<open>\<open>'%s' % key\<close> for the key of a dict; the text of a float or a date is not modelled.\<close>

fun py_str :: "pyval \<Rightarrow> error + string" where
  "py_str (PStr s) = Inr s"
| "py_str (PData s) = Inr s"
| "py_str (PInt i) = Inr (format_d i)"
| "py_str (PUid i) = Inr (format_d i)"
| "py_str (PBool b) = Inr (if b then ''True'' else ''False'')"
| "py_str PNone = Inr ''None''"
| "py_str _ = Inl NotModelled"

text \<open>
  The branches of \<open>GetXmlStr\<close> for the values that are no list and no dict. A Python
  \<open>long\<close> (an integer outside the range of \<open>int\<close>) and a \<open>set\<close> have no branch.
\<close>

fun leaf_xml :: "pyval \<Rightarrow> string \<Rightarrow> error + string" where
  "leaf_xml (PStr s) indent = Inr (indent @ ''<string>'' @ s @ ''</string>'')"
| "leaf_xml (PInt i) indent =
     (if - maxint - 1 \<le> i \<and> i \<le> maxint
      then Inr (indent @ ''<integer>'' @ format_d i @ ''</integer>'')
      else Inl PlistError)"
| "leaf_xml (PFloat f) indent = Inr (indent @ ''<real>'' @ format_f f @ ''</real>'')"
| "leaf_xml (PBool b) indent = Inr (indent @ (if b then ''<true/>'' else ''<false/>''))"
| "leaf_xml (PDate d) indent =
     (case strftime d of
        Inl e \<Rightarrow> Inl e
      | Inr date_str \<Rightarrow> Inr (indent @ ''<date>'' @ date_str @ ''</date>''))"
| "leaf_xml PNone indent = Inr (indent @ ''<string></string>'')"
| "leaf_xml (PUid i) indent =
     Inr (indent @ ''<dict><key>CF$UID</key><integer>'' @ format_d i @ ''</integer></dict>'')"
| "leaf_xml (PData s) indent = Inr (indent @ ''<data>'' @ b64encode s @ ''</data>'')"
| "leaf_xml _ indent = Inl PlistError"

text \<open>
  \<open>GetXmlStr\<close>, \<open>SequenceToXml\<close> and \<open>DictToXml\<close>; \<open>seq_items\<close> and \<open>dict_items\<close> are the
  loops of the last two: the lines that they append for the items.
\<close>

fun GetXmlStr :: "pyval \<Rightarrow> nat \<Rightarrow> error + string"
  and SequenceToXml :: "pyval list \<Rightarrow> nat \<Rightarrow> error + string"
  and DictToXml :: "(pyval \<times> pyval) list \<Rightarrow> nat \<Rightarrow> error + string"
  and seq_items :: "pyval list \<Rightarrow> nat \<Rightarrow> error + string list"
  and dict_items :: "(pyval \<times> pyval) list \<Rightarrow> nat \<Rightarrow> error + string list"
where
  "GetXmlStr (PList xs) indent_num = SequenceToXml xs indent_num"
| "GetXmlStr (PDict d) indent_num = DictToXml d indent_num"
| "GetXmlStr v indent_num = leaf_xml v (indent_of indent_num)"
| "SequenceToXml xs indent_num =
     (case seq_items xs indent_num of
        Inl e \<Rightarrow> Inl e
      | Inr lines \<Rightarrow>
          Inr (join [CHR 0x0A]
                 ([indent_of indent_num @ ''<array>''] @ lines
                  @ [indent_of indent_num @ ''</array>''])))"
| "DictToXml d indent_num =
     (case dict_items d indent_num of
        Inl e \<Rightarrow> Inl e
      | Inr lines \<Rightarrow>
          Inr (join [CHR 0x0A]
                 ([indent_of indent_num @ ''<dict>''] @ lines
                  @ [indent_of indent_num @ ''</dict>''])))"
| "seq_items [] indent_num = Inr []"
| "seq_items (x # xs) indent_num =
     (case GetXmlStr x (indent_num + 1) of
        Inl e \<Rightarrow> Inl e
      | Inr line \<Rightarrow>
          (case seq_items xs indent_num of
             Inl e \<Rightarrow> Inl e
           | Inr lines \<Rightarrow> Inr (line # lines)))"
| "dict_items [] indent_num = Inr []"
| "dict_items ((k, v) # d) indent_num =
     (case py_str k of
        Inl e \<Rightarrow> Inl e
      | Inr key \<Rightarrow>
          (case GetXmlStr v (indent_num + 1) of
             Inl e \<Rightarrow> Inl e
           | Inr line \<Rightarrow>
               (case dict_items d indent_num of
                  Inl e \<Rightarrow> Inl e
                | Inr lines \<Rightarrow>
                    Inr ((indent_of (indent_num + 1) @ ''<key>'' @ key @ ''</key>'')
                         # line # lines))))"

subsection \<open>The public methods\<close>

fun is_list_or_dict :: "pyval \<Rightarrow> bool" where
  \<comment> \<open>\<open>type(x) in PLIST_CONTENT_TYPES\<close>\<close>
  "is_list_or_dict (PList _) = True"
| "is_list_or_dict (PDict _) = True"
| "is_list_or_dict _ = False"

definition GetContents :: "plist_state \<Rightarrow> error + pyval" where
  "GetContents st = (if plist st = PNone then Inl PlistNotParsedError else Inr (plist st))"

definition GetEncoding :: "plist_state \<Rightarrow> string option" where
  "GetEncoding st =
     (case plist_xml_encoding st of
        None \<Rightarrow> None
      | Some enc \<Rightarrow> if enc \<noteq> [] then Some (py_lower enc) else None)"

definition GetXml :: "plist_state \<Rightarrow> error + string option" where
  "GetXml st =
     (if plist st = PNone then Inl PlistNotParsedError
      else if \<not> is_list_or_dict (plist st) then Inl PlistError
      else case GetXmlStr (plist st) 1 of
        Inl e \<Rightarrow> Inl e
      | Inr str_xml \<Rightarrow>
          if str_xml = [] then Inr None else Inr (Some (PLIST_HEAD @ str_xml @ PLIST_FOOT)))"

text \<open>
  \<open>GetXmlContent\<close>. The pattern \<open><plist(\s+version="[\d\.]+")?\s*>\<close> first matches the
  tag that ends \<open>PLIST_HEAD\<close>, since nothing before it in the head starts with
  \<open><plist\<close>; \<open>start\<close> is the position after that tag.
\<close>

fun rfind :: "string \<Rightarrow> string \<Rightarrow> nat option" where
  "rfind sub [] = (if sub = [] then Some 0 else None)"
| "rfind sub (c # cs) =
     (case rfind sub cs of
        Some i \<Rightarrow> Some (Suc i)
      | None \<Rightarrow> if take (length sub) (c # cs) = sub then Some 0 else None)"

definition GetXmlContent :: "plist_state \<Rightarrow> error + string option" where
  "GetXmlContent st =
     (case GetXml st of
        Inl e \<Rightarrow> Inl e
      | Inr None \<Rightarrow> Inr None
      | Inr (Some plist_xml_text) \<Rightarrow>
          (let start = length PLIST_HEAD - 1 in
           case rfind ''</plist>'' plist_xml_text of
             None \<Rightarrow> Inr (Some (py_strip (slice start (length plist_xml_text - 1) plist_xml_text)))
           | Some stop \<Rightarrow> Inr (Some (py_strip (slice start stop plist_xml_text)))))"

definition AddValidationHook :: "(pyval \<Rightarrow> error option) \<Rightarrow> plist_state \<Rightarrow> plist_state" where
  "AddValidationHook method st = st\<lparr> validation_hooks := validation_hooks st @ [method] \<rparr>"

fun contains :: "string \<Rightarrow> string \<Rightarrow> bool" where
  \<comment> \<open>\<open>sub in s\<close> for strings\<close>
  "contains sub [] = (sub = [])"
| "contains sub (c # cs) = (take (length sub) (c # cs) = sub \<or> contains sub cs)"

text \<open>
  \<open>_ValidateBasic\<close>: \<open>k not in self._plist\<close>, then \<open>self._plist[k]\<close>, which only a
  dict answers for a string \<open>k\<close>.
\<close>

fun ValidateBasic :: "(string \<times> (pyval \<Rightarrow> bool)) list \<Rightarrow> pyval \<Rightarrow> error option" where
  "ValidateBasic [] p = None"
| "ValidateBasic ((k, ty) # config) p =
     (case p of
        PDict d \<Rightarrow>
          (case map_of d (PStr k) of
             None \<Rightarrow> Some InvalidPlistError
           | Some v \<Rightarrow> if \<not> ty v then Some InvalidPlistError else ValidateBasic config p)
      | PList xs \<Rightarrow> if PStr k \<notin> set xs then Some InvalidPlistError else Some TypeError
      | PSet xs \<Rightarrow> if PStr k \<notin> set xs then Some InvalidPlistError else Some TypeError
      | PStr s \<Rightarrow> if \<not> contains k s then Some InvalidPlistError else Some TypeError
      | PData s \<Rightarrow> if \<not> contains k s then Some InvalidPlistError else Some TypeError
      | _ \<Rightarrow> Some TypeError)"

fun run_hooks :: "(pyval \<Rightarrow> error option) list \<Rightarrow> pyval \<Rightarrow> error option" where
  "run_hooks [] p = None"
| "run_hooks (method # hooks) p =
     (case method p of Some e \<Rightarrow> Some e | None \<Rightarrow> run_hooks hooks p)"

definition Validate :: "plist_state \<Rightarrow> error option" where
  "Validate st =
     (if plist st = PNone then Some PlistNotParsedError
      else if \<not> truthy (plist st) then Some InvalidPlistError
      else case (if validate_basic_config st \<noteq> []
                 then ValidateBasic (validate_basic_config st) (plist st) else None) of
        Some e \<Rightarrow> Some e
      | None \<Rightarrow> run_hooks (validation_hooks st) (plist st))"

text \<open>
  \<open>unicode(s, encoding)\<close> for the two encodings of the parser model; no other codec
  name is modelled.
\<close>

definition py_unicode :: "string \<Rightarrow> string \<Rightarrow> error + string" where
  "py_unicode s encoding =
     (if encoding \<in> set [''utf-8'', ''us-ascii''] then
        (if \<forall>c \<in> set s. (of_char c :: nat) < 128 then Inr s
         else if encoding = ''us-ascii'' then Inl ValueError else Inl NotModelled)
      else Inl NotModelled)"

definition EncodeXML :: "string option \<Rightarrow> plist_state \<Rightarrow> error + plist_state" where
  "EncodeXML encoding_arg st =
     (let encoding = (case encoding_arg of
                        None \<Rightarrow> GetEncoding st
                      | Some e \<Rightarrow> if e = [] then GetEncoding st else Some e)
      in case encoding of
        None \<Rightarrow> Inr st
      | Some enc \<Rightarrow>
          if enc = [] \<or> (plist_xml st \<noteq> None \<and> xml_is_unicode st) then Inr st
          else (case plist_xml st of
                  None \<Rightarrow> Inl TypeError
                | Some x \<Rightarrow>
                    (case py_unicode x enc of
                       Inl LookupError \<Rightarrow> Inl InvalidPlistError
                     | Inl e \<Rightarrow> Inl e
                     | Inr u \<Rightarrow> Inr (st\<lparr> plist_xml := Some u, xml_is_unicode := True \<rparr>))))"

text \<open>
  \<open>Parse\<close>; \<open>depth\<close> is the recursion depth that the interpreter leaves to the binary
  decoder.
\<close>

definition Parse :: "nat \<Rightarrow> plist_state \<Rightarrow> plist_state res" where
  "Parse depth st =
     (case (if plist_bin st \<noteq> None \<and> plist_bin st \<noteq> Some []
            then BinaryParse depth st
            else (case plist_xml st of
                    None \<Rightarrow> Inl (TypeError, st)
                  | Some x \<Rightarrow>
                      (case expat_Parse x st of
                         Inl (e, st') \<Rightarrow>
                           Inl (if e = ExpatError then MalformedPlistError ExpatMsg else e, st')
                       | Inr st' \<Rightarrow> Inr st'))) of
        Inl e \<Rightarrow> Inl e
      | Inr st1 \<Rightarrow>
          (case Validate st1 of
             Some e \<Rightarrow> Inl (e, st1)
           | None \<Rightarrow> raising st1 (EncodeXML None st1)))"

text \<open>\<open>SetContents\<close> stores the object before it encodes it and parses the text.\<close>

definition SetContents :: "nat \<Rightarrow> pyval \<Rightarrow> plist_state \<Rightarrow> plist_state res" where
  "SetContents depth plist_obj st =
     (if \<not> is_list_or_dict plist_obj then Inl (PlistError, st)
      else let st1 = st\<lparr> plist := plist_obj \<rparr> in
        case GetXml st1 of
          Inl e \<Rightarrow> Inl (e, st1)
        | Inr x \<Rightarrow> Parse depth (st1\<lparr> plist_xml := x, xml_is_unicode := False \<rparr>))"

text \<open>
  \<open>self._plist[k]\<close> and \<open>self._plist[k] = v\<close>. An index of a list is an integer,
  counted from the end when negative.
\<close>

definition list_index :: "'a list \<Rightarrow> int \<Rightarrow> nat option" where
  "list_index xs i =
     (let n = int (length xs); j = (if i < 0 then n + i else i)
      in if 0 \<le> j \<and> j < n then Some (nat j) else None)"

definition getitem :: "pyval \<Rightarrow> plist_state \<Rightarrow> error + pyval" where
  "getitem k st =
     (case plist st of
        PDict d \<Rightarrow>
          (if \<not> hashable k then Inl TypeError
           else case map_of d k of None \<Rightarrow> Inl KeyError | Some v \<Rightarrow> Inr v)
      | PList xs \<Rightarrow>
          (case k of
             PInt i \<Rightarrow> (case list_index xs i of None \<Rightarrow> Inl IndexError | Some j \<Rightarrow> Inr (xs ! j))
           | _ \<Rightarrow> Inl TypeError)
      | PStr s \<Rightarrow>
          (case k of
             PInt i \<Rightarrow> (case list_index s i of None \<Rightarrow> Inl IndexError | Some j \<Rightarrow> Inr (PStr [s ! j]))
           | _ \<Rightarrow> Inl TypeError)
      | _ \<Rightarrow> Inl TypeError)"

definition setitem :: "pyval \<Rightarrow> pyval \<Rightarrow> plist_state \<Rightarrow> error + plist_state" where
  "setitem k v st =
     (case plist st of
        PDict d \<Rightarrow>
          (if \<not> hashable k then Inl TypeError
           else Inr (st\<lparr> plist := PDict (dict_set d k v) \<rparr>))
      | PList xs \<Rightarrow>
          (case k of
             PInt i \<Rightarrow>
               (case list_index xs i of
                  None \<Rightarrow> Inl IndexError
                | Some j \<Rightarrow> Inr (st\<lparr> plist := PList (xs[j := v]) \<rparr>))
           | _ \<Rightarrow> Inl TypeError)
      | _ \<Rightarrow> Inl TypeError)"

definition iter :: "plist_state \<Rightarrow> error + pyval list" where
  "iter st =
     (case plist st of
        PDict d \<Rightarrow> Inr (map fst d)
      | PList xs \<Rightarrow> Inr xs
      | PSet xs \<Rightarrow> Inr xs
      | PStr s \<Rightarrow> Inr (map (\<lambda>c. PStr [c]) s)
      | PData s \<Rightarrow> Inr (map (\<lambda>c. PStr [c]) s)
      | _ \<Rightarrow> Inl TypeError)"

text \<open>\<open>LoadDocument\<close> is \<open>LoadPlist\<close> under its former name.\<close>

definition LoadDocument :: "string \<Rightarrow> plist_state \<Rightarrow> error + plist_state" where
  "LoadDocument plist_xml_arg st = LoadPlist plist_xml_arg st"

text \<open>
  The public interface as one step function: a call of a method, what it returns and
  the instance after it. \<open>GetContents\<close> returns the stored object itself, not a copy.
\<close>

datatype operation =
    OpReset
  | OpLoadPlist string
  | OpLoadDocument string
  | OpParse
  | OpValidate
  | OpEncodeXML "string option"
  | OpAddValidationHook "pyval \<Rightarrow> error option"
  | OpGetContents
  | OpSetContents pyval
  | OpGetEncoding
  | OpGetXml
  | OpGetXmlContent
  | OpGetItem pyval
  | OpSetItem pyval pyval
  | OpIter

datatype result = RNone | RValue pyval | RText "string option" | RValues "pyval list"

definition returning ::
  "plist_state \<Rightarrow> ('a \<Rightarrow> result) \<Rightarrow> error + 'a \<Rightarrow> (result \<times> plist_state) res" where
  "returning st f r = (case r of Inl e \<Rightarrow> Inl (e, st) | Inr x \<Rightarrow> Inr (f x, st))"

definition updating :: "plist_state res \<Rightarrow> (result \<times> plist_state) res" where
  "updating r = (case r of Inl e \<Rightarrow> Inl e | Inr st' \<Rightarrow> Inr (RNone, st'))"

fun call :: "nat \<Rightarrow> operation \<Rightarrow> plist_state \<Rightarrow> (result \<times> plist_state) res" where
  "call depth OpReset st = Inr (RNone, Reset st)"
| "call depth (OpLoadPlist p) st = updating (raising st (LoadPlist p st))"
| "call depth (OpLoadDocument p) st = updating (raising st (LoadDocument p st))"
| "call depth OpParse st = updating (Parse depth st)"
| "call depth OpValidate st =
     (case Validate st of Some e \<Rightarrow> Inl (e, st) | None \<Rightarrow> Inr (RNone, st))"
| "call depth (OpEncodeXML encoding) st = updating (raising st (EncodeXML encoding st))"
| "call depth (OpAddValidationHook method) st = Inr (RNone, AddValidationHook method st)"
| "call depth OpGetContents st = returning st RValue (GetContents st)"
| "call depth (OpSetContents plist_obj) st = updating (SetContents depth plist_obj st)"
| "call depth OpGetEncoding st = Inr (RText (GetEncoding st), st)"
| "call depth OpGetXml st = returning st RText (GetXml st)"
| "call depth OpGetXmlContent st = returning st RText (GetXmlContent st)"
| "call depth (OpGetItem k) st = returning st RValue (getitem k st)"
| "call depth (OpSetItem k v) st = updating (raising st (setitem k v st))"
| "call depth OpIter st = returning st RValues (iter st)"

text \<open>
  A sequence of calls on one instance, up to the first exception: the results of the
  calls, and the instance.
\<close>

fun run_ops ::
  "nat \<Rightarrow> operation list \<Rightarrow> plist_state \<Rightarrow> (result list \<times> plist_state) res" where
  "run_ops depth [] st = Inr ([], st)"
| "run_ops depth (op # ops) st =
     (case call depth op st of
        Inl e \<Rightarrow> Inl e
      | Inr (r, st') \<Rightarrow>
          (case run_ops depth ops st' of
             Inl e \<Rightarrow> Inl e
           | Inr (rs, st'') \<Rightarrow> Inr (r # rs, st'')))"

text \<open>The calls on a new \<open>ApplePlist()\<close>: what they return, or the first exception.\<close>

definition session :: "nat \<Rightarrow> operation list \<Rightarrow> error + result list" where
  "session depth ops =
     (case run_ops depth ops (empty_state []) of
        Inl (e, st) \<Rightarrow> Inl e
      | Inr (rs, st) \<Rightarrow> Inr rs)"

text \<open>
  The same calls by a caller that catches every exception and goes on: what each call
  returned or raised.
\<close>

fun outcomes_from :: "nat \<Rightarrow> operation list \<Rightarrow> plist_state \<Rightarrow> (error + result) list" where
  "outcomes_from depth [] st = []"
| "outcomes_from depth (op # ops) st =
     (case call depth op st of
        Inl (e, st') \<Rightarrow> Inl e # outcomes_from depth ops st'
      | Inr (r, st') \<Rightarrow> Inr r # outcomes_from depth ops st')"

definition outcomes :: "nat \<Rightarrow> operation list \<Rightarrow> (error + result) list" where
  "outcomes depth ops = outcomes_from depth ops (empty_state [])"

text \<open>The three stacks of the instance after the calls of \<open>session\<close>.\<close>

definition final_stacks ::
  "nat \<Rightarrow> operation list \<Rightarrow> error + string list \<times> pyval list \<times> string list" where
  "final_stacks depth ops =
     (case run_ops depth ops (empty_state []) of
        Inl (e, st) \<Rightarrow> Inl e
      | Inr (rs, st) \<Rightarrow> Inr (current_mode st, current_value st, current_key st))"


text \<open>
  Encoding a tree to XML and decoding an XML text, as a caller does them:
  \<open>GetXml\<close> on an instance that holds the tree; \<open>ApplePlist(text)\<close>, \<open>Parse()\<close>,
  \<open>GetContents()\<close>.
\<close>

definition encode_xml :: "pyval \<Rightarrow> error + string option" where
  "encode_xml v = GetXml ((empty_state [])\<lparr> plist := v \<rparr>)"

definition decode_xml :: "nat \<Rightarrow> string \<Rightarrow> error + pyval" where
  "decode_xml depth text =
     (case init [] (Some text) of
        Inl e \<Rightarrow> Inl e
      | Inr st \<Rightarrow>
          (case Parse depth st of
             Inl (e, st') \<Rightarrow> Inl e
           | Inr st' \<Rightarrow> GetContents st'))"

subsection \<open>Documents in the shape of the plist DTD\<close>

text \<open>
  The events of a document whose elements nest as the DTD says, as a tree. \<open>XText\<close>
  is character data between the children of an array or dict; \<open>XLeaf\<close> is a
  \<open>string\<close>, \<open>integer\<close>, \<open>date\<close> or \<open>data\<close> element with the pieces of its text;
  \<open>XFlag\<close> is \<open>true\<close> or \<open>false\<close>; \<open>XKey\<close> is a \<open>key\<close> element whose text comes in
  one piece.
\<close>

datatype xnode =
    XText string
  | XLeaf string "string list"
  | XFlag string
  | XKey string
  | XArray "xnode list"
  | XDict "xnode list"

fun events_of :: "xnode \<Rightarrow> xml_event list" where
  "events_of (XText t) = [CharacterData t]"
| "events_of (XLeaf name chunks) =
     StartElement name [] # map CharacterData chunks @ [EndElement name]"
| "events_of (XFlag name) = [StartElement name [], EndElement name]"
| "events_of (XKey k) = [StartElement ''key'' [], CharacterData k, EndElement ''key'']"
| "events_of (XArray cs) =
     StartElement ''array'' [] # concat (map events_of cs) @ [EndElement ''array'']"
| "events_of (XDict cs) =
     StartElement ''dict'' [] # concat (map events_of cs) @ [EndElement ''dict'']"

fun is_text :: "xnode \<Rightarrow> bool" where
  "is_text (XText t) = True"
| "is_text _ = False"

fun is_key :: "xnode \<Rightarrow> bool" where
  "is_key (XKey k) = True"
| "is_key _ = False"

definition is_value :: "xnode \<Rightarrow> bool" where
  "is_value x \<longleftrightarrow> \<not> is_text x \<and> \<not> is_key x"

text \<open>The children of a dict, its character data left out: a key, a value, and so on.\<close>

fun key_value_pairs :: "xnode list \<Rightarrow> bool" where
  "key_value_pairs [] = True"
| "key_value_pairs [x] = False"
| "key_value_pairs (k # v # rest) = (is_key k \<and> is_value v \<and> key_value_pairs rest)"

fun wf :: "xnode \<Rightarrow> bool" where
  "wf (XText t) = True"
| "wf (XLeaf name chunks) = (name \<in> set [''string'', ''integer'', ''date'', ''data''])"
| "wf (XFlag name) = (name \<in> set [''true'', ''false''])"
| "wf (XKey k) = (k \<noteq> [] \<and> k \<noteq> [CHR 0x0A])"
| "wf (XArray cs) = (list_all wf cs \<and> list_all (\<lambda>c. \<not> is_key c) cs)"
| "wf (XDict cs) = (list_all wf cs \<and> key_value_pairs (filter (\<lambda>c. \<not> is_text c) cs))"

text \<open>
  The whole document: the optional declaration (version, encoding, standalone), the
  \<open>plist\<close> element with its attributes, and in it one value with character data
  around.
\<close>

definition document_events ::
  "(string \<times> string option \<times> int) option \<Rightarrow> (string \<times> string) list \<Rightarrow> string list \<Rightarrow> xnode
     \<Rightarrow> string list \<Rightarrow> xml_event list" where
  "document_events decl attributes before root after =
     (case decl of None \<Rightarrow> [] | Some (ver, enc, sa) \<Rightarrow> [XmlDecl ver enc sa])
     @ [StartElement ''plist'' attributes] @ map CharacterData before
     @ events_of root @ map CharacterData after @ [EndElement ''plist'']"

subsection \<open>Sample documents\<close>

definition bytes :: "nat list \<Rightarrow> string" where
  "bytes ns = map char_of ns"

text \<open>
  The 32 bytes that end a binary plist, for counts and offsets below \<open>2^16\<close>:
  \<open>offsetIntSize\<close>, \<open>objectRefSize\<close>, \<open>numObjects\<close>, \<open>topObject\<close>, \<open>offsetTableOffset\<close>.
\<close>

definition bplist_footer :: "nat \<Rightarrow> nat \<Rightarrow> nat \<Rightarrow> nat \<Rightarrow> nat \<Rightarrow> string" where
  "bplist_footer int_size refsize num_objects top_object table_offset =
     bytes ([0, 0, 0, 0, 0, 0, int_size, refsize]
            @ [0, 0, 0, 0, 0, 0, num_objects div 256, num_objects mod 256]
            @ [0, 0, 0, 0, 0, 0, top_object div 256, top_object mod 256]
            @ [0, 0, 0, 0, 0, 0, table_offset div 256, table_offset mod 256])"

text \<open>The array \<open>[True]\<close>: object 0 at offset 8, object 1 at offset 10, the table at 11.\<close>

definition bplist_array_true :: string where
  "bplist_array_true = ''bplist00'' @ bytes [0xA1, 1, 9] @ bytes [8, 10] @ bplist_footer 1 1 2 0 11"

text \<open>The array \<open>[True, True]\<close> whose two slots refer to the one object at offset 11.\<close>

definition bplist_shared :: string where
  "bplist_shared =
     ''bplist00'' @ bytes [0xA2, 1, 1, 9] @ bytes [8, 11] @ bplist_footer 1 1 2 0 12"

text \<open>A plist whose top object is the fill byte \<open>0x0F\<close>.\<close>

definition bplist_fill :: string where
  "bplist_fill = ''bplist00'' @ bytes [0x0F] @ bytes [8] @ bplist_footer 1 1 1 0 9"

text \<open>An array that announces two references and is cut after the first.\<close>

definition bplist_short_array :: string where
  "bplist_short_array = bytes [0xA2, 1]"

text \<open>
  A plist of 256 objects: object 0, at offset 8, is an array of one element, given by
  the two-byte reference \<open>0x0001\<close>; the other 255 entries of the offset table point to
  the \<open>true\<close> at offset 11. The table is at 12.
\<close>

definition bplist_256 :: string where
  "bplist_256 =
     ''bplist00'' @ bytes [0xA1, 0, 1, 9] @ bytes (8 # replicate 255 11)
     @ bplist_footer 1 2 256 0 12"

text \<open>
  An ASCII string whose marker has the argument 15: the count follows, as the marker
  \<open>0x10\<close> (one byte) and the byte 20.
\<close>

definition bin_string_20 :: string where
  "bin_string_20 = bytes [0x5F, 0x10, 20] @ ''abcdefghijklmnopqrst'' @ ''uvw''"

text \<open>The same plist as \<open>bplist_array_true\<close> with the version \<open>99\<close>.\<close>

definition bplist_v99 :: string where
  "bplist_v99 = ''bplist99'' @ drop 8 bplist_array_true"

definition one_and_a_half :: pyfloat where
  \<comment> \<open>the double 1.5\<close>
  "one_and_a_half = Float64 0x3FF8000000000000"

text \<open>A document in the shape that the encoder writes, as the parser reports it.\<close>

definition sample_events :: "xml_event list" where
  "sample_events =
     [XmlDecl ''1.0'' (Some ''UTF-8'') (- 1),
      StartElement ''plist'' [(''version'', ''1.0'')], CharacterData [CHR 0x0A],
      CharacterData ''  '', StartElement ''dict'' [], CharacterData [CHR 0x0A],
      CharacterData ''    '', StartElement ''key'' [], CharacterData ''a'', EndElement ''key'',
      CharacterData [CHR 0x0A], CharacterData ''    '', StartElement ''string'' [],
      CharacterData ''x'', EndElement ''string'', CharacterData [CHR 0x0A],
      CharacterData ''  '', EndElement ''dict'', CharacterData [CHR 0x0A],
      EndElement ''plist'']"

text \<open>The tree of \<open>sample_events\<close>.\<close>

definition sample_tree :: xnode where
  "sample_tree =
     XDict [XText [CHR 0x0A], XText ''    '', XKey ''a'', XText [CHR 0x0A], XText ''    '',
            XLeaf ''string'' [''x''], XText [CHR 0x0A], XText ''  '']"

text \<open>The text that the encoder writes for \<open>{'a': 'x'}\<close>, \<open>{'a': 1.5}\<close> and \<open>['']\<close>.\<close>

definition xml_a_x :: string where
  "xml_a_x =
     PLIST_HEAD @ ''  <dict>'' @ [CHR 0x0A] @ ''    <key>a</key>'' @ [CHR 0x0A]
     @ ''    <string>x</string>'' @ [CHR 0x0A] @ ''  </dict>'' @ PLIST_FOOT"

definition xml_a_real :: string where
  "xml_a_real =
     PLIST_HEAD @ ''  <dict>'' @ [CHR 0x0A] @ ''    <key>a</key>'' @ [CHR 0x0A]
     @ ''    <real>1.500000</real>'' @ [CHR 0x0A] @ ''  </dict>'' @ PLIST_FOOT"

definition xml_empty_string :: string where
  "xml_empty_string =
     PLIST_HEAD @ ''  <array>'' @ [CHR 0x0A] @ ''    <string></string>'' @ [CHR 0x0A]
     @ ''  </array>'' @ PLIST_FOOT"

text \<open>
  The instance that holds \<open>bplist_256\<close> once its header, footer and offset table are
  read.
\<close>

definition st256 :: plist_state where
  "st256 = (LoadBinary' bplist_256 (empty_state []))
      \<lparr> bin_magic := Some ''bplist'', bin_v := Some ''00'',
        bin_sortVersion := Some 0, bin_offsetIntSize := Some 1, bin_objectRefSize := Some 2,
        bin_numObjects := Some 256, bin_topObject := Some 0, bin_offsetTableOffset := Some 12,
        object_offset := Some (8 # replicate 255 11) \<rparr>"

text \<open>
  A plist whose top object is an array that announces 255 references (count follows, in
  one byte): the buffer ends after 33 more bytes.
\<close>

definition bplist_long_array :: string where
  "bplist_long_array =
     ''bplist00'' @ bytes [0xAF, 0x10, 0xFF] @ bytes [8] @ bplist_footer 1 1 1 0 11"

text \<open>A plist whose offset table sends the top object to offset 200, past the end.\<close>

definition bplist_bad_offset :: string where
  "bplist_bad_offset = ''bplist00'' @ bytes [9] @ bytes [200] @ bplist_footer 1 1 1 0 9"

text \<open>
  An array whose marker has the argument 15 and whose count, 20, follows in one byte;
  its 20 references are to object 1, the \<open>true\<close> at offset 23. \<open>st_array_20\<close> is an
  instance that holds these bytes, with the two objects in its offset table.
\<close>

definition bin_array_20 :: string where
  "bin_array_20 = bytes ([0xAF, 0x10, 20] @ replicate 20 1 @ [9])"

definition st_array_20 :: plist_state where
  "st_array_20 = (LoadBinary' bin_array_20 (empty_state []))
      \<lparr> bin_numObjects := Some 2, object_offset := Some [0, 23] \<rparr>"

text \<open>
  The instance that holds \<open>bplist_shared\<close> once its header, footer and offset table are
  read, and the instances after the object at 11 and then the array at 8 are decoded.
\<close>

definition st_shared :: plist_state where
  "st_shared = (LoadBinary' bplist_shared (empty_state []))
      \<lparr> bin_magic := Some ''bplist'', bin_v := Some ''00'',
        bin_sortVersion := Some 0, bin_offsetIntSize := Some 1, bin_objectRefSize := Some 1,
        bin_numObjects := Some 2, bin_topObject := Some 0, bin_offsetTableOffset := Some 12,
        object_offset := Some [8, 11] \<rparr>"

definition st_shared1 :: plist_state where
  "st_shared1 = st_shared\<lparr> bin_objects := [11 \<mapsto> PBool True] \<rparr>"

definition st_shared2 :: plist_state where
  "st_shared2 =
     st_shared\<lparr> bin_objects := [11 \<mapsto> PBool True, 8 \<mapsto> PList [PBool True, PBool True]] \<rparr>"

text \<open>A document whose root is an empty dict, and the text that the encoder writes for it.\<close>

definition xml_plist_empty_dict :: string where
  "xml_plist_empty_dict = ''<plist><dict/></plist>''"

definition xml_empty_dict :: string where
  "xml_empty_dict = PLIST_HEAD @ ''  <dict>'' @ [CHR 0x0A] @ ''  </dict>'' @ PLIST_FOOT"

section \<open>Properties\<close>

subsection \<open>Loading a binary plist of an unsupported version\<close>

lemma slice_0: "slice 0 n xs = take n xs"
  by (simp add: slice_def)

lemma header_version_error:
  assumes len: "length buf \<ge> 8"
    and magic: "take 6 buf = BPLIST_MAGIC"
    and ver: "take 2 (drop 6 buf) \<notin> set BPLIST_VERSIONS"
    and h: "h = Some buf \<or> (h = None \<and> plist_bin s = Some buf)"
  shows "BinLoadHeader h s = Inl BinaryPlistVersionError"
proof -
  have l8: "length (take 8 buf) = 8" using len by simp
  have t6: "take 6 (take 8 buf) = take 6 buf" by (simp add: min_def)
  have d6: "drop 6 (take 8 buf) = take 2 (drop 6 buf)" by (simp add: drop_take)
  show ?thesis
    using l8 t6 d6 magic ver h by (auto simp: BinLoadHeader_def slice_0 Let_def)
qed

text \<open>
  Claim C6. A buffer that starts with the magic \<open>bplist\<close> and carries a version token
  other than \<open>00\<close> is loaded without an error, as a binary plist and not as XML, by
  \<open>LoadPlist\<close> and by the constructor; the parse that follows goes to the binary decoder
  and raises \<open>BinaryPlistVersionError\<close>, the instance being as it was loaded.
\<close>

theorem unsupported_version_deferred:
  assumes len: "length buf \<ge> 8"
    and magic: "take 6 buf = BPLIST_MAGIC"
    and ver: "take 2 (drop 6 buf) \<notin> set BPLIST_VERSIONS"
  shows "LoadPlist buf st = Inr (LoadBinary' buf st)
       \<and> init cfg (Some buf) = Inr (LoadBinary' buf (empty_state cfg))
       \<and> plist_bin (LoadBinary' buf st) = Some buf
       \<and> plist_xml (LoadBinary' buf st) = None
       \<and> Parse depth (LoadBinary' buf st) = Inl (BinaryPlistVersionError, LoadBinary' buf st)"
proof -
  note hdr = header_version_error [OF len magic ver]
  have ne: "buf \<noteq> []" using len by auto
  have 1: "\<And>s. LoadPlist buf s = Inr (LoadBinary' buf s)"
    by (simp add: LoadPlist_def hdr)
  have 2: "plist_bin (LoadBinary' buf st) = Some buf" "plist_xml (LoadBinary' buf st) = None"
    by (simp_all add: LoadBinary'_def)
  have 3: "Parse depth (LoadBinary' buf st) = Inl (BinaryPlistVersionError, LoadBinary' buf st)"
    using ne by (simp add: Parse_def BinaryParse_def raising_def 2 hdr)
  show ?thesis using 1 2 3 by (simp add: init_def)
qed

lemma bplist_v99_eq: "bplist_v99 = ''bplist99'' @ bytes [0xA1, 1, 9, 8, 10] @ bplist_footer 1 1 2 0 11"
  by (simp add: bplist_v99_def bplist_array_true_def bytes_def)

theorem unsupported_version_deferred_witness:
  "length bplist_v99 \<ge> 8 \<and> take 6 bplist_v99 = BPLIST_MAGIC
   \<and> take 2 (drop 6 bplist_v99) \<notin> set BPLIST_VERSIONS
   \<and> LoadPlist bplist_v99 (empty_state []) = Inr (LoadBinary' bplist_v99 (empty_state []))
   \<and> Parse 100 (LoadBinary' bplist_v99 (empty_state []))
       = Inl (BinaryPlistVersionError, LoadBinary' bplist_v99 (empty_state []))"
proof -
  have a: "length bplist_v99 \<ge> 8" by (simp add: bplist_v99_eq)
  have b: "take 6 bplist_v99 = BPLIST_MAGIC" by (simp add: bplist_v99_eq BPLIST_MAGIC_def)
  have c: "take 2 (drop 6 bplist_v99) \<notin> set BPLIST_VERSIONS"
    by (simp add: bplist_v99_eq BPLIST_VERSIONS_def)
  show ?thesis
    using a b c unsupported_version_deferred [OF a b c, of "empty_state []" "[]" 100] by simp
qed

subsection \<open>The accessors of an instance that was not parsed\<close>

lemma LoadPlist_unparsed:
  assumes "LoadPlist buf st0 = Inr st"
  shows "plist st = PNone \<and> plist_xml_encoding st = None"
  using assms
  by (auto simp: LoadPlist_def LoadBinary'_def LoadDocument'_def Reset_def empty_state_def
           split: sum.splits error.splits)

lemma init_unparsed:
  assumes "init cfg arg = Inr st"
  shows "plist st = PNone \<and> plist_xml_encoding st = None"
proof (cases arg)
  case None
  with assms show ?thesis by (auto simp: init_def Let_def empty_state_def)
next
  case (Some p)
  with assms show ?thesis by (auto simp: init_def Let_def dest: LoadPlist_unparsed)
qed

text \<open>
  Claim C10, as amended. On an instance whose root is not set, \<open>GetContents\<close>, \<open>GetXml\<close>
  and \<open>GetXmlContent\<close> raise \<open>PlistNotParsedError\<close> and leave the instance as it is; the
  root is not set on an instance that was just constructed or loaded, and there
  \<open>GetEncoding\<close> raises nothing and returns \<open>None\<close>, as its docstring says.
\<close>

theorem unparsed_accessors:
  "(plist st = PNone \<longrightarrow>
      call depth OpGetContents st = Inl (PlistNotParsedError, st)
    \<and> call depth OpGetXml st = Inl (PlistNotParsedError, st)
    \<and> call depth OpGetXmlContent st = Inl (PlistNotParsedError, st))
 \<and> (init cfg arg = Inr st \<or> LoadPlist buf st0 = Inr st \<longrightarrow>
      plist st = PNone \<and> call depth OpGetEncoding st = Inr (RText None, st))"
proof -
  have a: "plist st = PNone \<longrightarrow>
      call depth OpGetContents st = Inl (PlistNotParsedError, st)
    \<and> call depth OpGetXml st = Inl (PlistNotParsedError, st)
    \<and> call depth OpGetXmlContent st = Inl (PlistNotParsedError, st)"
    by (simp add: returning_def GetContents_def GetXml_def GetXmlContent_def)
  have b: "init cfg arg = Inr st \<or> LoadPlist buf st0 = Inr st \<longrightarrow>
      plist st = PNone \<and> call depth OpGetEncoding st = Inr (RText None, st)"
    by (auto simp: GetEncoding_def dest: LoadPlist_unparsed init_unparsed)
  from a b show ?thesis by blast
qed

theorem unparsed_accessors_witness:
  "init [] None = Inr (empty_state [])
   \<and> plist (empty_state []) = PNone
   \<and> call 100 OpGetContents (empty_state []) = Inl (PlistNotParsedError, empty_state [])
   \<and> call 100 OpGetXml (empty_state []) = Inl (PlistNotParsedError, empty_state [])
   \<and> call 100 OpGetXmlContent (empty_state []) = Inl (PlistNotParsedError, empty_state [])
   \<and> call 100 OpGetEncoding (empty_state []) = Inr (RText None, empty_state [])"
proof -
  have a: "init [] None = Inr (empty_state [])" by (simp add: init_def)
  have b: "plist (empty_state []) = PNone" by (simp add: empty_state_def)
  show ?thesis
    using a b unparsed_accessors [of "empty_state []" 100 "[]" None "[]" "empty_state []"]
    by simp
qed

text \<open>
  The claim as stated fails twice. On a new instance \<open>GetEncoding\<close> returns \<open>None\<close>, it
  does not raise \<open>PlistNotParsedError\<close>. And an instance whose parse has failed can
  hold a root: \<open>Parse\<close> stores the root before it calls \<open>Validate\<close>, so after the
  \<open>InvalidPlistError\<close> that the document \<open><plist><dict/></plist>\<close> ends with (an empty
  dict is no valid plist), \<open>GetContents\<close> returns the empty dict and \<open>GetXml\<close> its text.
\<close>

theorem accessors_without_successful_parse_counterexample:
  "outcomes 100 [OpGetEncoding] = [Inr (RText None)]
   \<and> outcomes 100 [OpLoadPlist xml_plist_empty_dict, OpParse, OpGetContents, OpGetXml]
       = [Inr RNone, Inl InvalidPlistError, Inr (RValue (PDict [])),
          Inr (RText (Some xml_empty_dict))]"
proof -
  have a: "outcomes 100 [OpGetEncoding] = [Inr (RText None)]"
    by code_simp
  have b: "outcomes 100 [OpLoadPlist xml_plist_empty_dict, OpParse, OpGetContents, OpGetXml]
       = [Inr RNone, Inl InvalidPlistError, Inr (RValue (PDict [])),
          Inr (RText (Some xml_empty_dict))]"
    by code_simp
  from a b show ?thesis by simp
qed

subsection \<open>What changes the root\<close>





subsection \<open>Arrays of a plist with more than 255 objects\<close>

lemma be_nat_single: "n < 256 \<Longrightarrow> be_nat [char_of n] = n"
  by (simp add: be_nat_def)

lemma offset_loop_bytes:
  "\<forall>n \<in> set ns. n < 256 \<Longrightarrow> length pre = ofs
   \<Longrightarrow> offset_loop (pre @ bytes ns @ post) 1 (length ns) ofs = (ns, None)"
proof (induction ns arbitrary: pre ofs)
  case Nil
  then show ?case by simp
next
  case (Cons n ns)
  have s: "slice ofs (ofs + 1) (pre @ bytes (n # ns) @ post) = [char_of n]"
    using Cons.prems by (simp add: slice_def bytes_def)
  have "offset_loop ((pre @ [char_of n]) @ bytes ns @ post) 1 (length ns) (ofs + 1) = (ns, None)"
    using Cons.prems by (intro Cons.IH) auto
  then have r: "offset_loop (pre @ bytes (n # ns) @ post) 1 (length ns) (ofs + 1) = (ns, None)"
    by (simp add: bytes_def)
  have b: "be_nat [char_of n] = n" using Cons.prems by (simp add: be_nat_single)
  show ?case
    using s r b by (simp add: Let_def)
qed

lemma array_refs_wide:
  assumes "bin_numObjects st = Some n" and "n > 255"
    and "payload_count b ofs objarg = Inr (pos, c)" and "c > 0" and "pos + 2 * c \<le> length b"
  shows "array_refs b ofs objarg st = Inl StructError"
proof -
  have "length (slice pos (pos + 2 * c) b) = 2 * c"
    using assms by (simp add: slice_def)
  moreover have "c div 2 * 2 \<noteq> 2 * c" using assms(4) by presburger
  ultimately show ?thesis
    using assms by (simp add: array_refs_def ref_size_def unpack_uints_def)
qed

lemma footer_len: "length (bplist_footer a b c d e) = 32"
  by (simp add: bplist_footer_def bytes_def)

lemma hdr256: "BinLoadHeader None (LoadBinary' bplist_256 (empty_state [])) = Inr ((LoadBinary' bplist_256 (empty_state []))\<lparr> bin_magic := Some ''bplist'', bin_v := Some ''00''\<rparr>)"
  by (simp add: BinLoadHeader_def LoadBinary'_def bplist_256_def slice_def BPLIST_MAGIC_def BPLIST_VERSIONS_def)

lemma ftr256: "drop (length bplist_256 - 32) bplist_256 = bplist_footer 1 2 256 0 12"
  by (simp add: bplist_256_def footer_len bytes_def)

lemma ftr_fields: "bplist_footer 1 2 256 0 12 = bytes [0,0,0,0,0,0,1,2, 0,0,0,0,0,0,1,0, 0,0,0,0,0,0,0,0, 0,0,0,0,0,0,0,12]"
  by (simp add: bplist_footer_def)


lemma tab256: "offset_loop bplist_256 (Suc 0) 256 12 = (8 # replicate 255 11, None)"
proof -
  have "offset_loop ((''bplist00'' @ bytes [0xA1, 0, 1, 9]) @ bytes (8 # replicate 255 11) @ bplist_footer 1 2 256 0 12) 1
          (length (8 # replicate 255 (11::nat))) 12 = (8 # replicate 255 11, None)"
    by (rule offset_loop_bytes) (auto simp: bytes_def)
  then show ?thesis by (simp add: bplist_256_def)
qed

lemma be_nat_two: "n < 65536 \<Longrightarrow> be_nat (bytes [0, 0, 0, 0, 0, 0, n div 256, n mod 256]) = n"
  by (simp add: be_nat_def bytes_def)

lemma BinLoadFooter_footer:
  assumes "plist_bin st = Some (body @ bplist_footer i r n t ofs)"
    and "i < 256" "r < 256" "n < 65536" "t < 65536" "ofs < 65536"
  shows "BinLoadFooter st =
     Inr (st\<lparr> bin_sortVersion := Some 0, bin_offsetIntSize := Some i,
               bin_objectRefSize := Some r, bin_numObjects := Some n,
               bin_topObject := Some t, bin_offsetTableOffset := Some ofs \<rparr>)"
proof -
  let ?a = "bplist_footer i r n t ofs"
  have d: "drop (length (body @ ?a) - 32) (body @ ?a) = ?a"
    by (simp add: footer_len)
  have 1: "of_char (?a ! 5) = (0::nat)" "of_char (?a ! 6) = i" "of_char (?a ! 7) = r"
    using assms by (simp_all add: bplist_footer_def bytes_def)
  have 2: "slice 8 16 ?a = bytes [0, 0, 0, 0, 0, 0, n div 256, n mod 256]"
       "slice 16 24 ?a = bytes [0, 0, 0, 0, 0, 0, t div 256, t mod 256]"
       "slice 24 32 ?a = bytes [0, 0, 0, 0, 0, 0, ofs div 256, ofs mod 256]"
    by (simp_all add: bplist_footer_def bytes_def slice_def)
  show ?thesis
    unfolding BinLoadFooter_def assms(1) option.case Let_def d
    using assms by (simp add: footer_len 1 2 be_nat_two)
qed

lemma pbl: "plist_bin (LoadBinary' b s) = Some b"
  by (simp add: LoadBinary'_def)

lemma parse256_prefix:
  "BinaryParse depth (LoadBinary' bplist_256 (empty_state [])) =
     (case BinLoadObjects depth st256 of Inl e \<Rightarrow> Inl e | Inr (objects, st4) \<Rightarrow> Inr (st4\<lparr>plist := objects\<rparr>))"
proof -
  let ?s1 = "(LoadBinary' bplist_256 (empty_state []))\<lparr> bin_magic := Some ''bplist'', bin_v := Some ''00''\<rparr>"
  let ?s2 = "?s1\<lparr> bin_sortVersion := Some 0, bin_offsetIntSize := Some 1,
               bin_objectRefSize := Some 2, bin_numObjects := Some 256,
               bin_topObject := Some 0, bin_offsetTableOffset := Some 12 \<rparr>"
  have b: "plist_bin ?s1 = Some ((''bplist00'' @ bytes [0xA1, 0, 1, 9] @ bytes (8 # replicate 255 11)) @ bplist_footer 1 2 256 0 12)"
    by (simp add: LoadBinary'_def bplist_256_def)
  have f: "BinLoadFooter ?s1 = Inr ?s2"
    by (rule BinLoadFooter_footer [OF b]) simp_all
  have pb: "plist_bin ?s2 = Some bplist_256" by (simp add: LoadBinary'_def)
  have t: "BinLoadOffsetTable ?s2 = Inr st256"
    unfolding BinLoadOffsetTable_def
    by (simp add: pbl INT_SIZE_FORMAT_def maxint_def tab256 st256_def)
  show ?thesis
    by (simp only: BinaryParse_def hdr256 f t sum.case)
qed

lemma st256_fields:
  "plist_bin st256 = Some bplist_256" "bin_numObjects st256 = Some 256"
  "bin_topObject st256 = Some 0" "object_offset st256 = Some (8 # replicate 255 11)"
  "bin_objects st256 8 = None"
  by (simp_all add: st256_def LoadBinary'_def Reset_def empty_state_def)

lemma b256_8: "length bplist_256 = 300" "(of_char (bplist_256 ! 8) :: nat) = 161"
  by (simp_all add: bplist_256_def bytes_def footer_len)

lemma array256: "array_refs bplist_256 8 (Suc 0) st256 = Inl StructError"
  by (rule array_refs_wide [where n = 256 and pos = 9 and c = 1])
     (simp_all add: st256_fields payload_count_def COUNT_INT_FOLLOWS_def b256_8)

lemma load256: "BinLoadObject (Suc n) 8 st256 = Inl (StructError, st256)"
  by (simp add: load_object_def st256_fields b256_8 type_lookup_def BinLoadArray_def array256 Let_def)

text \<open>
  Claim C2 at the input \<open>bplist_256\<close>. The plist has 256 objects, so a reference is two
  bytes wide; its top object is an array of one element. The loader asks
  \<open>struct.unpack\<close> for \<open>c/siz = 0\<close> references of the two bytes that it reads, and the
  parse ends with \<open>struct.error\<close> instead of the array \<open>[True]\<close>.
\<close>

theorem wide_reference_array_fails:
  "session 100 [OpLoadPlist bplist_256, OpParse] = Inl StructError"
proof -
  have l: "LoadPlist bplist_256 (empty_state []) = Inr (LoadBinary' bplist_256 (empty_state []))"
    by (simp add: LoadPlist_def BinLoadHeader_def bplist_256_def slice_def BPLIST_MAGIC_def
          BPLIST_VERSIONS_def LoadBinary'_def Reset_def)
  have o: "BinLoadObjects 100 st256 = Inl (StructError, st256)"
    using load256 [of 99] by (simp add: BinLoadObjects_def st256_fields offset_of_def)
  have p: "Parse 100 (LoadBinary' bplist_256 (empty_state [])) = Inl (StructError, st256)"
    by (simp add: Parse_def parse256_prefix o) (simp add: LoadBinary'_def bplist_256_def)
  show ?thesis
    by (simp add: session_def updating_def raising_def l p)
qed

end
